theory Spec2Isabelle
  imports Main
begin

section \<open>Data model\<close>

text \<open>
  The email service of the campaign application
  (\<^verbatim>\<open>src/backend/src/email/services/email.service.ts\<close>) works on three tables through
  an object-relational mapper and on a mail transport. A CSV row is the object
  \<^verbatim>\<open>{ [key: string]: string }\<close>; it is kept as the list of its (column, value) pairs
  in column order, and \<^verbatim>\<open>entry['recipient']\<close> is \<open>map_of entry ''recipient''\<close>, which is
  \<open>None\<close> where JavaScript yields \<^verbatim>\<open>undefined\<close>.
\<close>

type_synonym CSVParams = "(string \<times> string) list"

text \<open>
  The model classes (\<^verbatim>\<open>Campaign\<close>, \<^verbatim>\<open>EmailTemplate\<close>, \<^verbatim>\<open>EmailMessage\<close>,
  \<^verbatim>\<open>ProtectedMessage\<close>) and the interface \<^verbatim>\<open>MailToSend\<close> are declared outside the
  service; the records hold the fields the service reads and writes. Identifiers are
  integers. A nullable column and an optional field are an \<open>option\<close>.
\<close>

datatype ChannelType = SMS | Email

record Campaign =
  c_id :: int
  c_userId :: int
  c_type :: ChannelType
  c_credName :: "string option"

record EmailTemplate =
  tpl_body :: string
  tpl_subject :: string
  tpl_replyTo :: "string option"
  tpl_params :: "string list"

record EmailMessage =
  em_campaignId :: int
  em_recipient :: "string option"
  em_params :: CSVParams

record ProtectedMessage =
  pm_campaignId :: int
  pm_id :: string
  pm_passwordHash :: string
  pm_payload :: string

record MailToSend =
  mail_recipients :: "string list"
  mail_body :: string
  mail_subject :: string
  mail_replyTo :: "string option"

record HydratedMessage =
  hm_body :: string
  hm_subject :: string
  hm_replyTo :: "string option"

record database =
  campaigns :: "Campaign list"
  email_messages :: "EmailMessage list"
  protected_messages :: "ProtectedMessage list"

text \<open>
  Every \<^verbatim>\<open>throw\<close> and every rejected promise is a value of \<open>error\<close>. The two errors
  the service itself raises are \<open>NoMessageToSend\<close> (\<^verbatim>\<open>'No message to send'\<close>) and
  \<open>CouldNotSend recipient\<close> (\<^verbatim>\<open>'Could not send test email to ...'\<close>); the others come
  from the collaborators.
\<close>

datatype error =
    NoMessageToSend
  | CouldNotSend string
  | HeaderMismatch "string list"
  | TemplateHydrationFailure string
  | PersistenceFailure string
  | TransactionFinished
  | TransportFailure string

text \<open>
  A call of a promise-returning function of a collaborator has three outcomes: it throws
  before it returns a promise, or it returns a promise that resolves with a value, or it
  returns a promise that rejects with an error.
\<close>

datatype 'a call_outcome = Throws error | Resolves 'a | Rejects error

text \<open>JavaScript truthiness of a \<^verbatim>\<open>string | void | null\<close>, and \<^verbatim>\<open>v || null\<close>.\<close>

definition truthy :: "string option \<Rightarrow> bool" where
  "truthy v = (case v of None \<Rightarrow> False | Some s \<Rightarrow> s \<noteq> [])"

definition or_null :: "string option \<Rightarrow> string option" where
  "or_null v = (if truthy v then v else None)"

section \<open>The mapper's queries on a table\<close>

text \<open>
  The mapper is a library outside the repository. A table is the list of its rows in
  storage order; \<^verbatim>\<open>findOne\<close> yields the first row that satisfies the \<^verbatim>\<open>where\<close>
  clause, \<^verbatim>\<open>update\<close> rewrites the rows that satisfy it and reports their number,
  \<^verbatim>\<open>destroy\<close> removes them and \<^verbatim>\<open>bulkCreate\<close> appends the given records in order.
\<close>

definition findOne :: "('r \<Rightarrow> bool) \<Rightarrow> 'r list \<Rightarrow> 'r option" where
  "findOne wh rows = find wh rows"

definition update :: "('r \<Rightarrow> 'r) \<Rightarrow> ('r \<Rightarrow> bool) \<Rightarrow> 'r list \<Rightarrow> nat \<times> 'r list" where
  "update values wh rows =
     (length (filter wh rows), map (\<lambda>r. if wh r then values r else r) rows)"

definition destroy :: "('r \<Rightarrow> bool) \<Rightarrow> 'r list \<Rightarrow> 'r list" where
  "destroy wh rows = filter (\<lambda>r. \<not> wh r) rows"

definition bulkCreate :: "'r list \<Rightarrow> 'r list \<Rightarrow> 'r list" where
  "bulkCreate records rows = rows @ records"

section \<open>Composing and dispatching a message\<close>

text \<open>
  \<^verbatim>\<open>getParams\<close>: the parameters of the message row that
  \<^verbatim>\<open>EmailMessage.findOne({ where: { campaignId } })\<close> finds, or nothing.
\<close>

definition getParams :: "database \<Rightarrow> int \<Rightarrow> CSVParams option" where
  "getParams db campaignId =
     (case findOne (\<lambda>m. em_campaignId m = campaignId) (email_messages db) of
        None \<Rightarrow> None
      | Some emailMessage \<Rightarrow> Some (em_params emailMessage))"

text \<open>
  \<^verbatim>\<open>getHydratedMessage\<close>. Two collaborators of the template service are parameters:
  \<open>getFilledTemplate\<close>, the stored template of a campaign if there is one, and
  \<open>client_template\<close>, the substitution of parameters into a text, whose result the source
  uses as a string.
\<close>

definition getHydratedMessage ::
  "(int \<Rightarrow> EmailTemplate option) \<Rightarrow> (string \<Rightarrow> CSVParams \<Rightarrow> string) \<Rightarrow>
   database \<Rightarrow> int \<Rightarrow> HydratedMessage option" where
  "getHydratedMessage getFilledTemplate client_template db campaignId =
     (case (getFilledTemplate campaignId, getParams db campaignId) of
        (Some template, Some params) \<Rightarrow>
          Some \<lparr>hm_body = client_template (tpl_body template) params,
                hm_subject = client_template (tpl_subject template) params,
                hm_replyTo = or_null (tpl_replyTo template)\<rparr>
      | _ \<Rightarrow> None)"

text \<open>\<^verbatim>\<open>getCampaignMessage\<close>: the mail for the transport, with \<^verbatim>\<open>replyTo\<close> only when truthy.\<close>

definition getCampaignMessage ::
  "(int \<Rightarrow> EmailTemplate option) \<Rightarrow> (string \<Rightarrow> CSVParams \<Rightarrow> string) \<Rightarrow>
   database \<Rightarrow> int \<Rightarrow> string \<Rightarrow> MailToSend option" where
  "getCampaignMessage getFilledTemplate client_template db campaignId recipient =
     (case getHydratedMessage getFilledTemplate client_template db campaignId of
        Some message \<Rightarrow>
          Some \<lparr>mail_recipients = [recipient],
                mail_body = hm_body message,
                mail_subject = hm_subject message,
                mail_replyTo = or_null (hm_replyTo message)\<rparr>
      | None \<Rightarrow> None)"

text \<open>
  \<^verbatim>\<open>sendEmail\<close>. The source is
  \<^verbatim>\<open>try { return MailService.mailClient.sendMail(mail) } catch (e) { log; return }\<close>
  in an \<^verbatim>\<open>async\<close> function, with no \<^verbatim>\<open>await\<close> on the returned promise. The
  \<^verbatim>\<open>catch\<close> block runs when the call throws before it returns; a promise that rejects
  after it has been returned is not awaited inside the \<^verbatim>\<open>try\<close>, so its rejection is
  the rejection of \<^verbatim>\<open>sendEmail\<close>. The second component is the log of the mails
  handed to the transport, in order.
\<close>

definition sendEmail ::
  "(MailToSend \<Rightarrow> string option call_outcome) \<Rightarrow> MailToSend \<Rightarrow> MailToSend list \<Rightarrow>
   (error + string option) \<times> MailToSend list" where
  "sendEmail sendMail mail outbox =
     (case sendMail mail of
        Throws e \<Rightarrow> (Inr None, outbox @ [mail])
      | Resolves v \<Rightarrow> (Inr v, outbox @ [mail])
      | Rejects e \<Rightarrow> (Inl e, outbox @ [mail]))"

text \<open>
  \<^verbatim>\<open>findCampaign\<close>: \<^verbatim>\<open>+campaignId\<close> is the identity on a number.
\<close>

definition findCampaign :: "database \<Rightarrow> int \<Rightarrow> int \<Rightarrow> Campaign option" where
  "findCampaign db campaignId userId =
     findOne (\<lambda>c. c_id c = campaignId \<and> c_userId c = userId \<and> c_type c = Email)
       (campaigns db)"

text \<open>\<^verbatim>\<open>sendCampaignMessage\<close>.\<close>

definition sendCampaignMessage ::
  "(int \<Rightarrow> EmailTemplate option) \<Rightarrow> (string \<Rightarrow> CSVParams \<Rightarrow> string) \<Rightarrow>
   (MailToSend \<Rightarrow> string option call_outcome) \<Rightarrow>
   database \<Rightarrow> int \<Rightarrow> string \<Rightarrow> MailToSend list \<Rightarrow> (error + unit) \<times> MailToSend list" where
  "sendCampaignMessage getFilledTemplate client_template sendMail db campaignId recipient outbox =
     (case getCampaignMessage getFilledTemplate client_template db campaignId recipient of
        None \<Rightarrow> (Inl NoMessageToSend, outbox)
      | Some mail \<Rightarrow>
          (case sendEmail sendMail mail outbox of
             (Inl e, outbox') \<Rightarrow> (Inl e, outbox')
           | (Inr isEmailSent, outbox') \<Rightarrow>
               if \<not> truthy isEmailSent then (Inl (CouldNotSend recipient), outbox')
               else (Inr (), outbox')))"

text \<open>
  \<^verbatim>\<open>setCampaignCredential\<close>:
  \<^verbatim>\<open>Campaign.update({ credName: 'EMAIL_DEFAULT' }, { where: { id: campaignId } })\<close>.
  It yields the number of rows written and the database after the write.
\<close>

definition setCampaignCredential :: "database \<Rightarrow> int \<Rightarrow> nat \<times> database" where
  "setCampaignCredential db campaignId =
     (case update (\<lambda>c. c\<lparr>c_credName := Some ''EMAIL_DEFAULT''\<rparr>)
             (\<lambda>c. c_id c = campaignId) (campaigns db) of
        (n, rows) \<Rightarrow> (n, db\<lparr>campaigns := rows\<rparr>))"

section \<open>The upload transaction\<close>

text \<open>
  The upload handlers receive a transaction of the mapper. Its model keeps the database
  as it was committed when the transaction began (\<open>snapshot\<close>), the database as the
  statements of the transaction see it (\<open>working\<close>), whether the transaction has been
  rolled back (\<open>finished\<close>) and the log of the calls issued on it (\<open>issued\<close>). No code
  of the service commits.
\<close>

datatype orm_call =
    EmailMessage_destroy_call int
  | ProtectedMessage_destroy_call int
  | EmailMessage_bulkCreate_call "EmailMessage list"
  | storeProtectedMessages_call int "CSVParams list"
  | rollback_call

record transaction =
  snapshot :: database
  working :: database
  finished :: bool
  issued :: "orm_call list"

definition begin_transaction :: "database \<Rightarrow> transaction" where
  "begin_transaction db = \<lparr>snapshot = db, working = db, finished = False, issued = []\<rparr>"

text \<open>
  \<^verbatim>\<open>transaction.rollback()\<close>: the statements of the transaction are undone. On a
  transaction that is finished already the mapper rejects the call, which the handlers
  do not await.
\<close>

definition rollback :: "transaction \<Rightarrow> transaction" where
  "rollback t =
     (if finished t then t\<lparr>issued := issued t @ [rollback_call]\<rparr>
      else t\<lparr>working := snapshot t, finished := True, issued := issued t @ [rollback_call]\<rparr>)"

text \<open>
  A statement inside the transaction. Whether the database rejects it is not decided by
  the service, so it is the argument \<open>fault\<close>: \<open>Some err\<close> when the statement fails with
  \<open>err\<close>. A statement on a finished transaction is refused by the mapper.
\<close>

definition EmailMessage_destroy ::
  "error option \<Rightarrow> int \<Rightarrow> transaction \<Rightarrow> (error + unit) \<times> transaction" where
  "EmailMessage_destroy fault campaignId t =
     (let t' = t\<lparr>issued := issued t @ [EmailMessage_destroy_call campaignId]\<rparr> in
      if finished t then (Inl TransactionFinished, t')
      else case fault of
        Some err \<Rightarrow> (Inl err, t')
      | None \<Rightarrow>
          (Inr (), t'\<lparr>working := (working t)\<lparr>email_messages :=
             destroy (\<lambda>m. em_campaignId m = campaignId) (email_messages (working t))\<rparr>\<rparr>))"

definition ProtectedMessage_destroy ::
  "error option \<Rightarrow> int \<Rightarrow> transaction \<Rightarrow> (error + unit) \<times> transaction" where
  "ProtectedMessage_destroy fault campaignId t =
     (let t' = t\<lparr>issued := issued t @ [ProtectedMessage_destroy_call campaignId]\<rparr> in
      if finished t then (Inl TransactionFinished, t')
      else case fault of
        Some err \<Rightarrow> (Inl err, t')
      | None \<Rightarrow>
          (Inr (), t'\<lparr>working := (working t)\<lparr>protected_messages :=
             destroy (\<lambda>m. pm_campaignId m = campaignId) (protected_messages (working t))\<rparr>\<rparr>))"

definition EmailMessage_bulkCreate ::
  "error option \<Rightarrow> EmailMessage list \<Rightarrow> transaction \<Rightarrow> (error + unit) \<times> transaction" where
  "EmailMessage_bulkCreate fault records t =
     (let t' = t\<lparr>issued := issued t @ [EmailMessage_bulkCreate_call records]\<rparr> in
      if finished t then (Inl TransactionFinished, t')
      else case fault of
        Some err \<Rightarrow> (Inl err, t')
      | None \<Rightarrow>
          (Inr (), t'\<lparr>working := (working t)\<lparr>email_messages :=
             bulkCreate records (email_messages (working t))\<rparr>\<rparr>))"

text \<open>
  Modelled from the spec: \<^verbatim>\<open>ProtectedService.storeProtectedMessages\<close> is not among the
  source files. The spec has it as the collaborator that, "given a transaction, campaign
  id, and row data, returns the derived message records to insert; failure here
  propagates as an upload failure", after it has derived "an encrypted-payload record
  per row" for the protected-message store. The derivation is the parameter \<open>derive\<close>:
  it fails, or yields the protected rows to store and the message records to return.
\<close>

definition storeProtectedMessages ::
  "(int \<Rightarrow> CSVParams list \<Rightarrow> error + ProtectedMessage list \<times> EmailMessage list) \<Rightarrow>
   int \<Rightarrow> CSVParams list \<Rightarrow> transaction \<Rightarrow> (error + EmailMessage list) \<times> transaction" where
  "storeProtectedMessages derive campaignId data t =
     (let t' = t\<lparr>issued := issued t @ [storeProtectedMessages_call campaignId data]\<rparr> in
      if finished t then (Inl TransactionFinished, t')
      else case derive campaignId data of
        Inl err \<Rightarrow> (Inl err, t')
      | Inr (protectedRows, messages) \<Rightarrow>
          (Inr messages, t'\<lparr>working := (working t)\<lparr>protected_messages :=
             bulkCreate protectedRows (protected_messages (working t))\<rparr>\<rparr>))"

section \<open>The upload handlers\<close>

text \<open>
  Modelled from the spec: \<^verbatim>\<open>UploadService.checkTemplateKeysMatch\<close> is not among the
  source files. The spec has it as the header validation that "fails with
  \<^verbatim>\<open>HeaderMismatch\<close> if the uploaded CSV's column set does not cover every placeholder the
  template requires; this check runs once against the first row of an upload batch as a
  representative sample, not against every row". A batch with no row has no column. The
  result is the error thrown, if any.
\<close>

definition checkTemplateKeysMatch :: "CSVParams list \<Rightarrow> string list \<Rightarrow> error option" where
  "checkTemplateKeysMatch data templateParams =
     (let columns = (case data of [] \<Rightarrow> [] | row # _ \<Rightarrow> map fst row);
          missing = filter (\<lambda>p. p \<notin> set columns) templateParams
      in if missing = [] then None else Some (HeaderMismatch missing))"

text \<open>\<^verbatim>\<open>data[0]\<close>, which is \<^verbatim>\<open>undefined\<close> on an empty batch.\<close>

definition first_row :: "CSVParams list \<Rightarrow> CSVParams option" where
  "first_row data = (case data of [] \<Rightarrow> None | row # _ \<Rightarrow> Some row)"

text \<open>
  \<^verbatim>\<open>uploadCompleteOnPreview\<close>. The two validations are calls into other services; the
  handler takes them as the parameters \<open>checkKeys\<close> and \<open>testHydration\<close>, each yielding
  the error it throws, if any. Both stand before the \<^verbatim>\<open>try\<close> block, so an error of
  theirs leaves the handler at once.
\<close>

definition uploadCompleteOnPreview ::
  "(CSVParams list \<Rightarrow> string list \<Rightarrow> error option) \<Rightarrow>
   (CSVParams option list \<Rightarrow> string \<Rightarrow> string \<Rightarrow> error option) \<Rightarrow>
   error option \<Rightarrow> transaction \<Rightarrow> EmailTemplate \<Rightarrow> int \<Rightarrow> CSVParams list \<Rightarrow>
   (error + unit) \<times> transaction" where
  "uploadCompleteOnPreview checkKeys testHydration fault t template campaignId data =
     (case checkKeys data (tpl_params template) of
        Some err \<Rightarrow> (Inl err, t)
      | None \<Rightarrow>
          (case testHydration [first_row data] (tpl_body template) (tpl_subject template) of
             Some err \<Rightarrow> (Inl err, t)
           | None \<Rightarrow>
               (case EmailMessage_destroy fault campaignId t of
                  (Inl err, t') \<Rightarrow> (Inl err, rollback t')
                | (Inr _, t') \<Rightarrow> (Inr (), t'))))"

text \<open>\<^verbatim>\<open>uploadCompleteOnChunk\<close>.\<close>

definition uploadCompleteOnChunk ::
  "error option \<Rightarrow> transaction \<Rightarrow> int \<Rightarrow> CSVParams list \<Rightarrow> (error + unit) \<times> transaction" where
  "uploadCompleteOnChunk fault t campaignId data =
     (let records = map (\<lambda>entry. \<lparr>em_campaignId = campaignId,
                                   em_recipient = map_of entry ''recipient'',
                                   em_params = entry\<rparr>) data
      in case EmailMessage_bulkCreate fault records t of
           (Inl err, t') \<Rightarrow> (Inl err, rollback t')
         | (Inr _, t') \<Rightarrow> (Inr (), t'))"

text \<open>\<^verbatim>\<open>uploadProtectedCompleteOnPreview\<close>.\<close>

definition PROTECTED_CSV_HEADERS :: "string list" where
  "PROTECTED_CSV_HEADERS = [''recipient'', ''payload'', ''passwordhash'', ''id'']"

definition uploadProtectedCompleteOnPreview ::
  "(CSVParams list \<Rightarrow> string list \<Rightarrow> error option) \<Rightarrow>
   (CSVParams option list \<Rightarrow> string \<Rightarrow> string \<Rightarrow> error option) \<Rightarrow>
   error option \<Rightarrow> transaction \<Rightarrow> EmailTemplate \<Rightarrow> int \<Rightarrow> CSVParams list \<Rightarrow>
   (error + unit) \<times> transaction" where
  "uploadProtectedCompleteOnPreview checkKeys testHydration fault t template campaignId data =
     (case checkKeys data PROTECTED_CSV_HEADERS of
        Some err \<Rightarrow> (Inl err, t)
      | None \<Rightarrow>
          (case testHydration [first_row data] (tpl_body template) (tpl_subject template) of
             Some err \<Rightarrow> (Inl err, t)
           | None \<Rightarrow>
               (case ProtectedMessage_destroy fault campaignId t of
                  (Inl err, t') \<Rightarrow> (Inl err, rollback t')
                | (Inr _, t') \<Rightarrow> (Inr (), t'))))"

text \<open>\<^verbatim>\<open>uploadProtectedCompleteOnChunk\<close>.\<close>

definition uploadProtectedCompleteOnChunk ::
  "(int \<Rightarrow> CSVParams list \<Rightarrow> error + ProtectedMessage list \<times> EmailMessage list) \<Rightarrow>
   error option \<Rightarrow> transaction \<Rightarrow> int \<Rightarrow> CSVParams list \<Rightarrow> (error + unit) \<times> transaction" where
  "uploadProtectedCompleteOnChunk derive fault t campaignId data =
     (case storeProtectedMessages derive campaignId data t of
        (Inl err, t1) \<Rightarrow> (Inl err, rollback t1)
      | (Inr messages, t1) \<Rightarrow>
          (case EmailMessage_bulkCreate fault messages t1 of
             (Inl err, t2) \<Rightarrow> (Inl err, rollback t2)
           | (Inr _, t2) \<Rightarrow> (Inr (), t2)))"

text \<open>
  The states of a transaction during one upload that began on the database \<open>db0\<close>: the
  fresh transaction, and every state one of the four handlers leaves when it resolves.
\<close>

inductive upload_state :: "database \<Rightarrow> transaction \<Rightarrow> bool" for db0 :: database where
  begun: "upload_state db0 (begin_transaction db0)"
| preview:
    "upload_state db0 t \<Longrightarrow>
     uploadCompleteOnPreview checkKeys testHydration fault t template campaignId data = (Inr (), t') \<Longrightarrow>
     upload_state db0 t'"
| chunk:
    "upload_state db0 t \<Longrightarrow>
     uploadCompleteOnChunk fault t campaignId data = (Inr (), t') \<Longrightarrow>
     upload_state db0 t'"
| protected_preview:
    "upload_state db0 t \<Longrightarrow>
     uploadProtectedCompleteOnPreview checkKeys testHydration fault t template campaignId data = (Inr (), t') \<Longrightarrow>
     upload_state db0 t'"
| protected_chunk:
    "upload_state db0 t \<Longrightarrow>
     uploadProtectedCompleteOnChunk derive fault t campaignId data = (Inr (), t') \<Longrightarrow>
     upload_state db0 t'"

text \<open>
  A handler's result \<open>r\<close> is the rejection with \<open>err\<close> after a rollback to \<open>db0\<close>: the
  transaction is finished, its database is \<open>db0\<close>, and the last call on it is the rollback.
\<close>

definition rejects_rolled_back :: "database \<Rightarrow> error \<Rightarrow> (error + unit) \<times> transaction \<Rightarrow> bool" where
  "rejects_rolled_back db0 err r \<longleftrightarrow>
     fst r = Inl err \<and> finished (snd r) \<and> working (snd r) = db0 \<and> snapshot (snd r) = db0 \<and>
     last (issued (snd r)) = rollback_call"

section \<open>Example data\<close>

text \<open>
  The data of the examples: a campaign table with three campaigns, a template with the
  body \<^verbatim>\<open>Hi \<close>, the subject \<^verbatim>\<open>Dear \<close> and the placeholder \<^verbatim>\<open>name\<close>, and the two
  rows of a CSV with the header \<^verbatim>\<open>recipient,name\<close>, stored as the message rows of
  campaign 1. The substitution of the examples appends the value of \<^verbatim>\<open>name\<close> to the
  text.
\<close>

abbreviation (input) alex_row :: CSVParams where
  "alex_row \<equiv> [(''recipient'', ''a@x.com''), (''name'', ''Alex'')]"

abbreviation (input) bo_row :: CSVParams where
  "bo_row \<equiv> [(''recipient'', ''b@x.com''), (''name'', ''Bo'')]"

abbreviation (input) example_template :: EmailTemplate where
  "example_template \<equiv>
     \<lparr>tpl_body = ''Hi '', tpl_subject = ''Dear '', tpl_replyTo = None, tpl_params = [''name'']\<rparr>"

abbreviation (input) example_render :: "string \<Rightarrow> CSVParams \<Rightarrow> string" where
  "example_render \<equiv> (\<lambda>text params. case map_of params ''name'' of None \<Rightarrow> text | Some v \<Rightarrow> text @ v)"

abbreviation (input) example_db :: database where
  "example_db \<equiv>
     \<lparr>campaigns = [\<lparr>c_id = 1, c_userId = 7, c_type = Email, c_credName = None\<rparr>,
                   \<lparr>c_id = 2, c_userId = 7, c_type = SMS, c_credName = Some ''twilio''\<rparr>,
                   \<lparr>c_id = 3, c_userId = 8, c_type = Email, c_credName = Some ''EMAIL_DEFAULT''\<rparr>],
      email_messages = [\<lparr>em_campaignId = 1, em_recipient = Some ''a@x.com'', em_params = alex_row\<rparr>,
                        \<lparr>em_campaignId = 1, em_recipient = Some ''b@x.com'', em_params = bo_row\<rparr>],
      protected_messages = []\<rparr>"

abbreviation (input) example_mail :: "string \<Rightarrow> MailToSend" where
  "example_mail recipient \<equiv>
     \<lparr>mail_recipients = [recipient], mail_body = ''Hi Alex'', mail_subject = ''Dear Alex'',
      mail_replyTo = None\<rparr>"

text \<open>
  For the upload examples: a trial hydration that passes, the transaction of an upload on
  the example database after the preview handler and after one chunk of two rows, and a
  row of a protected campaign's CSV.
\<close>

abbreviation (input) hydration_passes :: "CSVParams option list \<Rightarrow> string \<Rightarrow> string \<Rightarrow> error option" where
  "hydration_passes \<equiv> (\<lambda>records body subject. None)"

abbreviation (input) after_preview :: transaction where
  "after_preview \<equiv>
     snd (uploadCompleteOnPreview checkTemplateKeysMatch hydration_passes None
            (begin_transaction example_db) example_template 1 [bo_row, alex_row])"

abbreviation (input) after_chunk :: transaction where
  "after_chunk \<equiv> snd (uploadCompleteOnChunk None after_preview 1 [bo_row, alex_row])"

abbreviation (input) protected_row :: CSVParams where
  "protected_row \<equiv>
     [(''recipient'', ''a@x.com''), (''payload'', ''c2VjcmV0''), (''passwordhash'', ''5e88''),
      (''id'', ''m1'')]"

section \<open>Hydration\<close>

lemma or_null_idem: "or_null (or_null v) = or_null v"
  by (simp add: or_null_def)

lemma getHydratedMessage_None:
  "getFilledTemplate campaignId = None \<or> getParams db campaignId = None \<Longrightarrow>
   getHydratedMessage getFilledTemplate client_template db campaignId = None"
  by (cases "getFilledTemplate campaignId"; cases "getParams db campaignId")
     (simp_all add: getHydratedMessage_def)

lemma getHydratedMessage_Some:
  "getFilledTemplate campaignId = Some template \<Longrightarrow> getParams db campaignId = Some params \<Longrightarrow>
   getHydratedMessage getFilledTemplate client_template db campaignId =
     Some \<lparr>hm_body = client_template (tpl_body template) params,
           hm_subject = client_template (tpl_subject template) params,
           hm_replyTo = or_null (tpl_replyTo template)\<rparr>"
  by (simp add: getHydratedMessage_def)

lemma getCampaignMessage_Some:
  "getHydratedMessage getFilledTemplate client_template db campaignId = Some message \<Longrightarrow>
   getCampaignMessage getFilledTemplate client_template db campaignId recipient =
     Some \<lparr>mail_recipients = [recipient], mail_body = hm_body message,
           mail_subject = hm_subject message, mail_replyTo = or_null (hm_replyTo message)\<rparr>"
  by (simp add: getCampaignMessage_def)

lemma getCampaignMessage_None:
  "getHydratedMessage getFilledTemplate client_template db campaignId = None \<Longrightarrow>
   getCampaignMessage getFilledTemplate client_template db campaignId recipient = None"
  by (simp add: getCampaignMessage_def)

text \<open>
  Claim C5. For every campaign id, \<^verbatim>\<open>getHydratedMessage\<close> yields nothing when the
  stored template or the stored parameters are absent, and when both are present it
  yields the document whose subject and body are both hydrated and whose reply-to is the
  template's (or null); the mail built from it carries the same three fields. No result
  has only some of the fields.
\<close>

theorem getHydratedMessage_all_or_nothing:
  "(getFilledTemplate campaignId = None \<or> getParams db campaignId = None \<longrightarrow>
      getHydratedMessage getFilledTemplate client_template db campaignId = None \<and>
      getCampaignMessage getFilledTemplate client_template db campaignId recipient = None) \<and>
   (\<forall>template params.
      getFilledTemplate campaignId = Some template \<and> getParams db campaignId = Some params \<longrightarrow>
      getHydratedMessage getFilledTemplate client_template db campaignId =
        Some \<lparr>hm_body = client_template (tpl_body template) params,
              hm_subject = client_template (tpl_subject template) params,
              hm_replyTo = or_null (tpl_replyTo template)\<rparr> \<and>
      getCampaignMessage getFilledTemplate client_template db campaignId recipient =
        Some \<lparr>mail_recipients = [recipient],
              mail_body = client_template (tpl_body template) params,
              mail_subject = client_template (tpl_subject template) params,
              mail_replyTo = or_null (tpl_replyTo template)\<rparr>)"
proof (intro conjI allI impI)
  assume "getFilledTemplate campaignId = None \<or> getParams db campaignId = None"
  then show n: "getHydratedMessage getFilledTemplate client_template db campaignId = None"
    by (rule getHydratedMessage_None)
  then show "getCampaignMessage getFilledTemplate client_template db campaignId recipient = None"
    by (rule getCampaignMessage_None)
next
  fix template params
  assume "getFilledTemplate campaignId = Some template \<and> getParams db campaignId = Some params"
  then show h: "getHydratedMessage getFilledTemplate client_template db campaignId =
     Some \<lparr>hm_body = client_template (tpl_body template) params,
           hm_subject = client_template (tpl_subject template) params,
           hm_replyTo = or_null (tpl_replyTo template)\<rparr>"
    by (simp add: getHydratedMessage_Some)
  show "getCampaignMessage getFilledTemplate client_template db campaignId recipient =
        Some \<lparr>mail_recipients = [recipient],
              mail_body = client_template (tpl_body template) params,
              mail_subject = client_template (tpl_subject template) params,
              mail_replyTo = or_null (tpl_replyTo template)\<rparr>"
    by (simp add: getCampaignMessage_Some [OF h] or_null_idem)
qed

text \<open>
  The theorem at the example data: campaign 1 has a template and a stored row, campaign
  3 has a template and no stored row, and nothing is stored for campaign 1 when the
  template is missing.
\<close>

theorem getHydratedMessage_all_or_nothing_witness:
  "getHydratedMessage (\<lambda>_. Some example_template) example_render example_db 1 =
     Some \<lparr>hm_body = ''Hi Alex'', hm_subject = ''Dear Alex'', hm_replyTo = None\<rparr> \<and>
   getHydratedMessage (\<lambda>_. Some example_template) example_render example_db 3 = None \<and>
   getHydratedMessage (\<lambda>_. None) example_render example_db 1 = None"
proof -
  have p1: "getParams example_db 1 = Some alex_row"
    by (simp add: getParams_def findOne_def)
  have p3: "getParams example_db 3 = None"
    by (simp add: getParams_def findOne_def)
  have a: "getHydratedMessage (\<lambda>_. Some example_template) example_render example_db 1 =
     Some \<lparr>hm_body = ''Hi Alex'', hm_subject = ''Dear Alex'', hm_replyTo = None\<rparr>"
    using getHydratedMessage_all_or_nothing
      [of "\<lambda>_. Some example_template" 1 example_db example_render "''a@x.com''"] p1
    by (simp add: or_null_def truthy_def)
  have b: "getHydratedMessage (\<lambda>_. Some example_template) example_render example_db 3 = None"
    using getHydratedMessage_all_or_nothing
      [of "\<lambda>_. Some example_template" 3 example_db example_render "''a@x.com''"] p3
    by simp
  have c: "getHydratedMessage (\<lambda>_. None) example_render example_db 1 = None"
    using getHydratedMessage_all_or_nothing
      [of "\<lambda>_. None" 1 example_db example_render "''a@x.com''"]
    by simp
  from a b c show ?thesis by simp
qed

section \<open>Finding a campaign\<close>

lemma find_distinct_key:
  assumes "distinct (map key rows)" and "r \<in> set rows" and "P r"
    and same: "\<And>x. P x \<Longrightarrow> key x = key r"
  shows "find P rows = Some r"
  using assms(1,2)
proof (induction rows)
  case Nil
  then show ?case by simp
next
  case (Cons a rows)
  show ?case
  proof (cases "P a")
    case True
    then have k: "key a = key r" by (rule same)
    from Cons.prems(1) have n: "key a \<notin> key ` set rows" by simp
    have "a = r"
    proof (rule ccontr)
      assume "a \<noteq> r"
      with Cons.prems(2) have "r \<in> set rows" by simp
      then have "key r \<in> key ` set rows" by (rule imageI)
      with k n show False by simp
    qed
    with True show ?thesis by simp
  next
    case False
    with \<open>P r\<close> have "a \<noteq> r" by blast
    with Cons.prems have "distinct (map key rows)" "r \<in> set rows" by simp_all
    then have "find P rows = Some r" by (rule Cons.IH)
    with False show ?thesis by simp
  qed
qed

lemma find_Some_sat: "find P xs = Some x \<Longrightarrow> x \<in> set xs \<and> P x"
  by (induction xs) (auto split: if_splits)

text \<open>
  Claim C6. Campaign ids are the primary key of the campaign table. For every campaign
  id and user id, \<^verbatim>\<open>findCampaign\<close> returns a campaign exactly when it is the stored
  campaign with that id, owned by that user and of channel type Email; and it yields
  the one value "no result" exactly when no stored campaign has the id, the owner and
  the channel together, so a wrong owner, a wrong channel and an unknown id look the
  same to the caller.
\<close>

theorem findCampaign_iff:
  assumes "distinct (map c_id (campaigns db))"
  shows "(findCampaign db campaignId userId = Some c \<longleftrightarrow>
            c \<in> set (campaigns db) \<and> c_id c = campaignId \<and> c_userId c = userId \<and> c_type c = Email) \<and>
         (findCampaign db campaignId userId = None \<longleftrightarrow>
            (\<forall>c' \<in> set (campaigns db).
               c_id c' \<noteq> campaignId \<or> c_userId c' \<noteq> userId \<or> c_type c' \<noteq> Email))"
proof (rule conjI)
  show "findCampaign db campaignId userId = Some c \<longleftrightarrow>
            c \<in> set (campaigns db) \<and> c_id c = campaignId \<and> c_userId c = userId \<and> c_type c = Email"
  proof (rule iffI)
    assume "findCampaign db campaignId userId = Some c"
    then have "find (\<lambda>c. c_id c = campaignId \<and> c_userId c = userId \<and> c_type c = Email) (campaigns db) = Some c"
      by (simp add: findCampaign_def findOne_def)
    then show "c \<in> set (campaigns db) \<and> c_id c = campaignId \<and> c_userId c = userId \<and> c_type c = Email"
      by (rule find_Some_sat)
  next
    assume a: "c \<in> set (campaigns db) \<and> c_id c = campaignId \<and> c_userId c = userId \<and> c_type c = Email"
    have "find (\<lambda>c. c_id c = campaignId \<and> c_userId c = userId \<and> c_type c = Email) (campaigns db) = Some c"
    proof (rule find_distinct_key [where key = c_id])
      show "distinct (map c_id (campaigns db))" by (rule assms)
      show "c \<in> set (campaigns db)" using a by simp
      show "c_id c = campaignId \<and> c_userId c = userId \<and> c_type c = Email" using a by simp
      show "c_id x = c_id c" if "c_id x = campaignId \<and> c_userId x = userId \<and> c_type x = Email" for x
        using that a by simp
    qed
    then show "findCampaign db campaignId userId = Some c"
      by (simp add: findCampaign_def findOne_def)
  qed
next
  have "findCampaign db campaignId userId = None \<longleftrightarrow>
     \<not> (\<exists>x. x \<in> set (campaigns db) \<and> (c_id x = campaignId \<and> c_userId x = userId \<and> c_type x = Email))"
    unfolding findCampaign_def findOne_def by (rule find_None_iff)
  then show "findCampaign db campaignId userId = None \<longleftrightarrow>
            (\<forall>c' \<in> set (campaigns db).
               c_id c' \<noteq> campaignId \<or> c_userId c' \<noteq> userId \<or> c_type c' \<noteq> Email)"
    by blast
qed

text \<open>
  The theorem at the example data: user 7 finds the own email campaign 1, and gets no
  result for the own SMS campaign 2, for the email campaign 3 of user 8 and for the
  unknown id 4.
\<close>

theorem findCampaign_iff_witness:
  "distinct (map c_id (campaigns example_db)) \<and>
   findCampaign example_db 1 7 = Some \<lparr>c_id = 1, c_userId = 7, c_type = Email, c_credName = None\<rparr> \<and>
   findCampaign example_db 2 7 = None \<and>
   findCampaign example_db 3 7 = None \<and>
   findCampaign example_db 4 7 = None"
proof -
  have d: "distinct (map c_id (campaigns example_db))" by simp
  have 1: "findCampaign example_db 1 7 =
      Some \<lparr>c_id = 1, c_userId = 7, c_type = Email, c_credName = None\<rparr>"
    using findCampaign_iff [OF d, of 1 7 "\<lparr>c_id = 1, c_userId = 7, c_type = Email, c_credName = None\<rparr>"]
    by simp
  have 2: "findCampaign example_db 2 7 = None"
    using findCampaign_iff [OF d, of 2 7] by simp
  have 3: "findCampaign example_db 3 7 = None"
    using findCampaign_iff [OF d, of 3 7] by simp
  have 4: "findCampaign example_db 4 7 = None"
    using findCampaign_iff [OF d, of 4 7] by simp
  from d 1 2 3 4 show ?thesis by simp
qed

section \<open>Which parameters a message is composed from\<close>

lemma getParams_first_row:
  "getParams db campaignId =
   map_option em_params (find (\<lambda>m. em_campaignId m = campaignId) (email_messages db))"
  by (simp add: getParams_def findOne_def split: option.split)

lemma example_message:
  "getCampaignMessage (\<lambda>_. Some example_template) example_render example_db 1 recipient =
     Some (example_mail recipient)"
  by (simp add: getCampaignMessage_def getHydratedMessage_def getParams_def findOne_def
      or_null_def truthy_def)

lemma example_no_message:
  "getCampaignMessage (\<lambda>_. Some example_template) example_render example_db 3 recipient = None"
  by (simp add: getCampaignMessage_def getHydratedMessage_def getParams_def findOne_def)

text \<open>
  Claim C7 says that a message for a recipient is composed from the parameters stored
  for that recipient. It fails: \<^verbatim>\<open>getParams\<close> asks for a message row of the campaign
  with no condition on the recipient, and \<^verbatim>\<open>getHydratedMessage\<close> does not receive the
  recipient at all. In the example the mail to \<^verbatim>\<open>b@x.com\<close>, whose stored row has the
  name Bo, is rendered with the parameters of the first row, those of Alex.
\<close>

theorem getCampaignMessage_ignores_recipient_params:
  "map_option mail_body
     (getCampaignMessage (\<lambda>_. Some example_template) example_render example_db 1 ''b@x.com'') =
     Some (example_render (tpl_body example_template) alex_row) \<and>
   map_option mail_body
     (getCampaignMessage (\<lambda>_. Some example_template) example_render example_db 1 ''b@x.com'') \<noteq>
     Some (example_render (tpl_body example_template) bo_row) \<and>
   findOne (\<lambda>m. em_campaignId m = 1 \<and> em_recipient m = Some ''b@x.com'') (email_messages example_db) =
     Some \<lparr>em_campaignId = 1, em_recipient = Some ''b@x.com'', em_params = bo_row\<rparr>"
  by (simp add: example_message findOne_def)

text \<open>
  Claim C7 as amended. For every campaign id, the subject, the body and the reply-to of
  the composed message are the same for every recipient; the recipient is the addressee
  only. The subject and the body are the template's, rendered against the parameters
  of the first stored message row of the campaign.
\<close>

theorem getCampaignMessage_recipient_independent:
  "(\<forall>r1 r2.
      map_option (\<lambda>m. (mail_body m, mail_subject m, mail_replyTo m))
        (getCampaignMessage getFilledTemplate client_template db campaignId r1) =
      map_option (\<lambda>m. (mail_body m, mail_subject m, mail_replyTo m))
        (getCampaignMessage getFilledTemplate client_template db campaignId r2)) \<and>
   (\<forall>mail.
      getCampaignMessage getFilledTemplate client_template db campaignId recipient = Some mail \<longrightarrow>
      mail_recipients mail = [recipient] \<and>
      (\<exists>template row.
         getFilledTemplate campaignId = Some template \<and>
         find (\<lambda>m. em_campaignId m = campaignId) (email_messages db) = Some row \<and>
         mail_body mail = client_template (tpl_body template) (em_params row) \<and>
         mail_subject mail = client_template (tpl_subject template) (em_params row)))"
proof (intro conjI allI impI)
  fix r1 r2
  show "map_option (\<lambda>m. (mail_body m, mail_subject m, mail_replyTo m))
        (getCampaignMessage getFilledTemplate client_template db campaignId r1) =
      map_option (\<lambda>m. (mail_body m, mail_subject m, mail_replyTo m))
        (getCampaignMessage getFilledTemplate client_template db campaignId r2)"
    by (cases "getHydratedMessage getFilledTemplate client_template db campaignId")
       (simp_all add: getCampaignMessage_def)
next
  fix mail
  assume m: "getCampaignMessage getFilledTemplate client_template db campaignId recipient = Some mail"
  then obtain message where
    h: "getHydratedMessage getFilledTemplate client_template db campaignId = Some message"
    and mail: "mail = \<lparr>mail_recipients = [recipient], mail_body = hm_body message,
           mail_subject = hm_subject message, mail_replyTo = or_null (hm_replyTo message)\<rparr>"
    by (cases "getHydratedMessage getFilledTemplate client_template db campaignId")
       (simp_all add: getCampaignMessage_def)
  from mail show "mail_recipients mail = [recipient]" by simp
  from h obtain template params where
    t: "getFilledTemplate campaignId = Some template" and p: "getParams db campaignId = Some params"
    by (cases "getFilledTemplate campaignId"; cases "getParams db campaignId")
       (simp_all add: getHydratedMessage_def)
  from p obtain row where
    r: "find (\<lambda>m. em_campaignId m = campaignId) (email_messages db) = Some row"
    and ps: "params = em_params row"
    by (auto simp: getParams_first_row)
  from h t p have msg: "message = \<lparr>hm_body = client_template (tpl_body template) params,
           hm_subject = client_template (tpl_subject template) params,
           hm_replyTo = or_null (tpl_replyTo template)\<rparr>"
    by (simp add: getHydratedMessage_def)
  have b: "mail_body mail = client_template (tpl_body template) (em_params row)"
    by (simp add: mail msg ps)
  have s: "mail_subject mail = client_template (tpl_subject template) (em_params row)"
    by (simp add: mail msg ps)
  from t r b s show "\<exists>template row.
         getFilledTemplate campaignId = Some template \<and>
         find (\<lambda>m. em_campaignId m = campaignId) (email_messages db) = Some row \<and>
         mail_body mail = client_template (tpl_body template) (em_params row) \<and>
         mail_subject mail = client_template (tpl_subject template) (em_params row)"
    by blast
qed

text \<open>
  The theorem at the example data: the mails to \<^verbatim>\<open>a@x.com\<close> and to \<^verbatim>\<open>b@x.com\<close>
  differ in the addressee only.
\<close>

theorem getCampaignMessage_recipient_independent_witness:
  "getCampaignMessage (\<lambda>_. Some example_template) example_render example_db 1 ''a@x.com'' =
     Some (example_mail ''a@x.com'') \<and>
   getCampaignMessage (\<lambda>_. Some example_template) example_render example_db 1 ''b@x.com'' =
     Some (example_mail ''b@x.com'') \<and>
   mail_recipients (example_mail ''b@x.com'') = [''b@x.com'']"
proof -
  have a: "getCampaignMessage (\<lambda>_. Some example_template) example_render example_db 1 ''a@x.com'' =
     Some (example_mail ''a@x.com'')"
    by (rule example_message)
  have b: "getCampaignMessage (\<lambda>_. Some example_template) example_render example_db 1 ''b@x.com'' =
     Some (example_mail ''b@x.com'')"
    by (rule example_message)
  from getCampaignMessage_recipient_independent
      [of "\<lambda>_. Some example_template" example_render example_db 1 "''b@x.com''"] b
  have "mail_recipients (example_mail ''b@x.com'') = [''b@x.com'']"
    by blast
  with a b show ?thesis by blast
qed

section \<open>Dispatch\<close>

lemma sendCampaignMessage_None:
  "getCampaignMessage getFilledTemplate client_template db campaignId recipient = None \<Longrightarrow>
   sendCampaignMessage getFilledTemplate client_template sendMail db campaignId recipient outbox =
     (Inl NoMessageToSend, outbox)"
  by (simp add: sendCampaignMessage_def)

lemma sendCampaignMessage_Some:
  "getCampaignMessage getFilledTemplate client_template db campaignId recipient = Some mail \<Longrightarrow>
   sendCampaignMessage getFilledTemplate client_template sendMail db campaignId recipient outbox =
     (case sendMail mail of
        Throws e \<Rightarrow> (Inl (CouldNotSend recipient), outbox @ [mail])
      | Resolves v \<Rightarrow>
          (if truthy v then Inr () else Inl (CouldNotSend recipient), outbox @ [mail])
      | Rejects e \<Rightarrow> (Inl e, outbox @ [mail]))"
  by (cases "sendMail mail") (simp_all add: sendCampaignMessage_def sendEmail_def truthy_def)

text \<open>
  Claim C4. For every campaign id and recipient: when composition yields nothing,
  \<^verbatim>\<open>sendCampaignMessage\<close> fails with the no-message error and the transport's log is
  unchanged; otherwise the composed mail is handed to the transport exactly once,
  whatever the transport does with it, and when the transport reports the outcome \<open>v\<close>
  the dispatch fails with the send-failed error if and only if \<open>v\<close> is no success (absent
  or empty). The dispatch succeeds only when the transport reported a success.
\<close>

theorem sendCampaignMessage_dispatch:
  "(getCampaignMessage getFilledTemplate client_template db campaignId recipient = None \<longrightarrow>
      sendCampaignMessage getFilledTemplate client_template sendMail db campaignId recipient outbox =
        (Inl NoMessageToSend, outbox)) \<and>
   (\<forall>mail.
      getCampaignMessage getFilledTemplate client_template db campaignId recipient = Some mail \<longrightarrow>
      snd (sendCampaignMessage getFilledTemplate client_template sendMail db campaignId recipient outbox) =
        outbox @ [mail] \<and>
      (\<forall>v. sendMail mail = Resolves v \<longrightarrow>
         (fst (sendCampaignMessage getFilledTemplate client_template sendMail db campaignId recipient outbox) =
            Inl (CouldNotSend recipient) \<longleftrightarrow> \<not> truthy v)) \<and>
      (fst (sendCampaignMessage getFilledTemplate client_template sendMail db campaignId recipient outbox) =
         Inr () \<longleftrightarrow> (\<exists>v. sendMail mail = Resolves v \<and> truthy v)))"
proof (intro conjI allI impI)
  assume "getCampaignMessage getFilledTemplate client_template db campaignId recipient = None"
  then show "sendCampaignMessage getFilledTemplate client_template sendMail db campaignId recipient outbox =
        (Inl NoMessageToSend, outbox)"
    by (rule sendCampaignMessage_None)
next
  fix mail
  assume m: "getCampaignMessage getFilledTemplate client_template db campaignId recipient = Some mail"
  note s = sendCampaignMessage_Some [OF m, of sendMail outbox]
  show "snd (sendCampaignMessage getFilledTemplate client_template sendMail db campaignId recipient outbox) =
        outbox @ [mail]"
    by (cases "sendMail mail") (simp_all add: s)
  show "fst (sendCampaignMessage getFilledTemplate client_template sendMail db campaignId recipient outbox) =
            Inl (CouldNotSend recipient) \<longleftrightarrow> \<not> truthy v"
    if "sendMail mail = Resolves v" for v
    using that by (simp add: s)
  show "fst (sendCampaignMessage getFilledTemplate client_template sendMail db campaignId recipient outbox) =
         Inr () \<longleftrightarrow> (\<exists>v. sendMail mail = Resolves v \<and> truthy v)"
    by (cases "sendMail mail") (simp_all add: s)
qed

text \<open>
  The theorem at the example data: no transport call for campaign 3, which has no stored
  row; one call and success when the transport returns a message id; one call and the
  send-failed error when it returns nothing.
\<close>

theorem sendCampaignMessage_dispatch_witness:
  "sendCampaignMessage (\<lambda>_. Some example_template) example_render (\<lambda>_. Resolves (Some ''msg-1''))
      example_db 3 ''admin@x.com'' [] = (Inl NoMessageToSend, []) \<and>
   sendCampaignMessage (\<lambda>_. Some example_template) example_render (\<lambda>_. Resolves (Some ''msg-1''))
      example_db 1 ''admin@x.com'' [] = (Inr (), [example_mail ''admin@x.com'']) \<and>
   sendCampaignMessage (\<lambda>_. Some example_template) example_render (\<lambda>_. Resolves None)
      example_db 1 ''admin@x.com'' [] =
     (Inl (CouldNotSend ''admin@x.com''), [example_mail ''admin@x.com''])"
proof -
  have a: "sendCampaignMessage (\<lambda>_. Some example_template) example_render
      (\<lambda>_. Resolves (Some ''msg-1'')) example_db 3 ''admin@x.com'' [] = (Inl NoMessageToSend, [])"
    using sendCampaignMessage_dispatch
      [of "\<lambda>_. Some example_template" example_render example_db 3 "''admin@x.com''"
          "\<lambda>_. Resolves (Some ''msg-1'')" "[]"]
      example_no_message [of "''admin@x.com''"]
    by simp
  have b: "sendCampaignMessage (\<lambda>_. Some example_template) example_render
      (\<lambda>_. Resolves (Some ''msg-1'')) example_db 1 ''admin@x.com'' [] =
      (Inr (), [example_mail ''admin@x.com''])"
    using sendCampaignMessage_dispatch
      [of "\<lambda>_. Some example_template" example_render example_db 1 "''admin@x.com''"
          "\<lambda>_. Resolves (Some ''msg-1'')" "[]"]
      example_message [of "''admin@x.com''"]
    by (simp add: truthy_def prod_eq_iff)
  have c: "sendCampaignMessage (\<lambda>_. Some example_template) example_render
      (\<lambda>_. Resolves None) example_db 1 ''admin@x.com'' [] =
      (Inl (CouldNotSend ''admin@x.com''), [example_mail ''admin@x.com''])"
    using sendCampaignMessage_dispatch
      [of "\<lambda>_. Some example_template" example_render example_db 1 "''admin@x.com''"
          "\<lambda>_. Resolves None" "[]"]
      example_message [of "''admin@x.com''"]
    by (simp add: truthy_def prod_eq_iff)
  from a b c show ?thesis by simp
qed

text \<open>
  Claim C10 says that \<^verbatim>\<open>sendEmail\<close> never lets an exception of the transport client
  through, so that \<^verbatim>\<open>sendCampaignMessage\<close> reports a crash of the transport as the
  send-failed error. The code does so for a call that throws at once, and misses the
  transport whose promise rejects: the rejection leaves \<^verbatim>\<open>sendEmail\<close> and
  \<^verbatim>\<open>sendCampaignMessage\<close> as it is.
\<close>

theorem sendEmail_rejection_escapes:
  "sendEmail (\<lambda>_. Rejects (TransportFailure ''connection refused'')) (example_mail ''admin@x.com'') [] =
     (Inl (TransportFailure ''connection refused''), [example_mail ''admin@x.com'']) \<and>
   sendCampaignMessage (\<lambda>_. Some example_template) example_render
      (\<lambda>_. Rejects (TransportFailure ''connection refused'')) example_db 1 ''admin@x.com'' [] =
     (Inl (TransportFailure ''connection refused''), [example_mail ''admin@x.com'']) \<and>
   sendCampaignMessage (\<lambda>_. Some example_template) example_render
      (\<lambda>_. Throws (TransportFailure ''connection refused'')) example_db 1 ''admin@x.com'' [] =
     (Inl (CouldNotSend ''admin@x.com''), [example_mail ''admin@x.com''])"
  by (simp add: sendEmail_def sendCampaignMessage_Some [OF example_message])

section \<open>Binding the default credential\<close>

lemma update_length: "length (snd (update values wh rows)) = length rows"
  by (simp add: update_def)

lemma update_nth:
  "i < length rows \<Longrightarrow>
   snd (update values wh rows) ! i = (if wh (rows ! i) then values (rows ! i) else rows ! i)"
  by (simp add: update_def)

lemma setCampaignCredential_campaigns:
  "campaigns (snd (setCampaignCredential db campaignId)) =
   snd (update (\<lambda>c. c\<lparr>c_credName := Some ''EMAIL_DEFAULT''\<rparr>) (\<lambda>c. c_id c = campaignId) (campaigns db))"
  by (simp add: setCampaignCredential_def split: prod.split)

text \<open>
  Claim C9. For every campaign id and every prior credential, \<^verbatim>\<open>setCampaignCredential\<close>
  turns each campaign row with that id into the same row with the credential
  \<^verbatim>\<open>'EMAIL_DEFAULT'\<close>, whatever the credential was; id, owner and channel type of every
  row stay, every other campaign row stays as a whole, and so do the other tables. The
  number it reports is the number of rows with that id.
\<close>

theorem setCampaignCredential_frame:
  "length (campaigns (snd (setCampaignCredential db campaignId))) = length (campaigns db) \<and>
   (\<forall>i < length (campaigns db).
      (c_id (campaigns db ! i) = campaignId \<longrightarrow>
         campaigns (snd (setCampaignCredential db campaignId)) ! i =
           (campaigns db ! i)\<lparr>c_credName := Some ''EMAIL_DEFAULT''\<rparr>) \<and>
      (c_id (campaigns db ! i) \<noteq> campaignId \<longrightarrow>
         campaigns (snd (setCampaignCredential db campaignId)) ! i = campaigns db ! i) \<and>
      c_id (campaigns (snd (setCampaignCredential db campaignId)) ! i) = c_id (campaigns db ! i) \<and>
      c_userId (campaigns (snd (setCampaignCredential db campaignId)) ! i) = c_userId (campaigns db ! i) \<and>
      c_type (campaigns (snd (setCampaignCredential db campaignId)) ! i) = c_type (campaigns db ! i)) \<and>
   email_messages (snd (setCampaignCredential db campaignId)) = email_messages db \<and>
   protected_messages (snd (setCampaignCredential db campaignId)) = protected_messages db \<and>
   fst (setCampaignCredential db campaignId) =
     length (filter (\<lambda>c. c_id c = campaignId) (campaigns db))"
proof (intro conjI allI impI)
  show "length (campaigns (snd (setCampaignCredential db campaignId))) = length (campaigns db)"
    by (simp add: setCampaignCredential_campaigns update_length)
  show "email_messages (snd (setCampaignCredential db campaignId)) = email_messages db"
    by (simp add: setCampaignCredential_def split: prod.split)
  show "protected_messages (snd (setCampaignCredential db campaignId)) = protected_messages db"
    by (simp add: setCampaignCredential_def split: prod.split)
  show "fst (setCampaignCredential db campaignId) =
     length (filter (\<lambda>c. c_id c = campaignId) (campaigns db))"
    by (simp add: setCampaignCredential_def update_def)
next
  fix i assume i: "i < length (campaigns db)"
  note nth = update_nth [OF i, of "\<lambda>c. c\<lparr>c_credName := Some ''EMAIL_DEFAULT''\<rparr>" "\<lambda>c. c_id c = campaignId"]
  show "c_id (campaigns (snd (setCampaignCredential db campaignId)) ! i) = c_id (campaigns db ! i)"
    by (simp add: setCampaignCredential_campaigns nth)
  show "c_userId (campaigns (snd (setCampaignCredential db campaignId)) ! i) = c_userId (campaigns db ! i)"
    by (simp add: setCampaignCredential_campaigns nth)
  show "c_type (campaigns (snd (setCampaignCredential db campaignId)) ! i) = c_type (campaigns db ! i)"
    by (simp add: setCampaignCredential_campaigns nth)
  show "campaigns (snd (setCampaignCredential db campaignId)) ! i =
           (campaigns db ! i)\<lparr>c_credName := Some ''EMAIL_DEFAULT''\<rparr>"
    if "c_id (campaigns db ! i) = campaignId"
    using that by (simp add: setCampaignCredential_campaigns nth)
  show "campaigns (snd (setCampaignCredential db campaignId)) ! i = campaigns db ! i"
    if "c_id (campaigns db ! i) \<noteq> campaignId"
    using that by (simp add: setCampaignCredential_campaigns nth)
qed

text \<open>
  The theorem at the example data: campaign 1, bound to no credential, is bound to the
  default one; binding campaign 2 overwrites its credential and changes nothing else.
\<close>

theorem setCampaignCredential_frame_witness:
  "setCampaignCredential example_db 2 =
     (1, \<lparr>campaigns = [\<lparr>c_id = 1, c_userId = 7, c_type = Email, c_credName = None\<rparr>,
                       \<lparr>c_id = 2, c_userId = 7, c_type = SMS, c_credName = Some ''EMAIL_DEFAULT''\<rparr>,
                       \<lparr>c_id = 3, c_userId = 8, c_type = Email, c_credName = Some ''EMAIL_DEFAULT''\<rparr>],
          email_messages = email_messages example_db,
          protected_messages = []\<rparr>) \<and>
   campaigns (snd (setCampaignCredential example_db 1)) ! 0 =
     \<lparr>c_id = 1, c_userId = 7, c_type = Email, c_credName = Some ''EMAIL_DEFAULT''\<rparr>"
proof -
  have a: "setCampaignCredential example_db 2 =
     (1, \<lparr>campaigns = [\<lparr>c_id = 1, c_userId = 7, c_type = Email, c_credName = None\<rparr>,
                       \<lparr>c_id = 2, c_userId = 7, c_type = SMS, c_credName = Some ''EMAIL_DEFAULT''\<rparr>,
                       \<lparr>c_id = 3, c_userId = 8, c_type = Email, c_credName = Some ''EMAIL_DEFAULT''\<rparr>],
          email_messages = email_messages example_db,
          protected_messages = []\<rparr>)"
    by (simp add: setCampaignCredential_def update_def)
  have "(0::nat) < length (campaigns example_db)" by simp
  with setCampaignCredential_frame [of example_db 1]
  have "c_id (campaigns example_db ! 0) = 1 \<longrightarrow>
         campaigns (snd (setCampaignCredential example_db 1)) ! 0 =
           (campaigns example_db ! 0)\<lparr>c_credName := Some ''EMAIL_DEFAULT''\<rparr>"
    by blast
  then have b: "campaigns (snd (setCampaignCredential example_db 1)) ! 0 =
     \<lparr>c_id = 1, c_userId = 7, c_type = Email, c_credName = Some ''EMAIL_DEFAULT''\<rparr>"
    by simp
  from a b show ?thesis by simp
qed

section \<open>Upload: the statements of the transaction\<close>

lemma rollback_snapshot: "snapshot (rollback t) = snapshot t"
  by (simp add: rollback_def)

lemma rollback_finished: "finished (rollback t)"
  by (simp add: rollback_def)

lemma rollback_working: "\<not> finished t \<Longrightarrow> working (rollback t) = snapshot t"
  by (simp add: rollback_def)

lemma rollback_issued: "issued (rollback t) = issued t @ [rollback_call]"
  by (simp add: rollback_def)

lemma EmailMessage_destroy_ok:
  "\<not> finished t \<Longrightarrow>
   EmailMessage_destroy None campaignId t =
     (Inr (), t\<lparr>issued := issued t @ [EmailMessage_destroy_call campaignId],
               working := (working t)\<lparr>email_messages :=
                 destroy (\<lambda>m. em_campaignId m = campaignId) (email_messages (working t))\<rparr>\<rparr>)"
  by (simp add: EmailMessage_destroy_def)

lemma EmailMessage_destroy_fault:
  "\<not> finished t \<Longrightarrow>
   EmailMessage_destroy (Some err) campaignId t =
     (Inl err, t\<lparr>issued := issued t @ [EmailMessage_destroy_call campaignId]\<rparr>)"
  by (simp add: EmailMessage_destroy_def)

lemma EmailMessage_destroy_finished:
  "finished t \<Longrightarrow>
   EmailMessage_destroy fault campaignId t =
     (Inl TransactionFinished, t\<lparr>issued := issued t @ [EmailMessage_destroy_call campaignId]\<rparr>)"
  by (simp add: EmailMessage_destroy_def)

lemma ProtectedMessage_destroy_ok:
  "\<not> finished t \<Longrightarrow>
   ProtectedMessage_destroy None campaignId t =
     (Inr (), t\<lparr>issued := issued t @ [ProtectedMessage_destroy_call campaignId],
               working := (working t)\<lparr>protected_messages :=
                 destroy (\<lambda>m. pm_campaignId m = campaignId) (protected_messages (working t))\<rparr>\<rparr>)"
  by (simp add: ProtectedMessage_destroy_def)

lemma ProtectedMessage_destroy_fault:
  "\<not> finished t \<Longrightarrow>
   ProtectedMessage_destroy (Some err) campaignId t =
     (Inl err, t\<lparr>issued := issued t @ [ProtectedMessage_destroy_call campaignId]\<rparr>)"
  by (simp add: ProtectedMessage_destroy_def)

lemma ProtectedMessage_destroy_finished:
  "finished t \<Longrightarrow>
   ProtectedMessage_destroy fault campaignId t =
     (Inl TransactionFinished, t\<lparr>issued := issued t @ [ProtectedMessage_destroy_call campaignId]\<rparr>)"
  by (simp add: ProtectedMessage_destroy_def)

lemma EmailMessage_bulkCreate_ok:
  "\<not> finished t \<Longrightarrow>
   EmailMessage_bulkCreate None records t =
     (Inr (), t\<lparr>issued := issued t @ [EmailMessage_bulkCreate_call records],
               working := (working t)\<lparr>email_messages :=
                 bulkCreate records (email_messages (working t))\<rparr>\<rparr>)"
  by (simp add: EmailMessage_bulkCreate_def)

lemma EmailMessage_bulkCreate_fault:
  "\<not> finished t \<Longrightarrow>
   EmailMessage_bulkCreate (Some err) records t =
     (Inl err, t\<lparr>issued := issued t @ [EmailMessage_bulkCreate_call records]\<rparr>)"
  by (simp add: EmailMessage_bulkCreate_def)

lemma EmailMessage_bulkCreate_finished:
  "finished t \<Longrightarrow>
   EmailMessage_bulkCreate fault records t =
     (Inl TransactionFinished, t\<lparr>issued := issued t @ [EmailMessage_bulkCreate_call records]\<rparr>)"
  by (simp add: EmailMessage_bulkCreate_def)

lemma storeProtectedMessages_ok:
  "\<not> finished t \<Longrightarrow> derive campaignId data = Inr (protectedRows, messages) \<Longrightarrow>
   storeProtectedMessages derive campaignId data t =
     (Inr messages, t\<lparr>issued := issued t @ [storeProtectedMessages_call campaignId data],
               working := (working t)\<lparr>protected_messages :=
                 bulkCreate protectedRows (protected_messages (working t))\<rparr>\<rparr>)"
  by (simp add: storeProtectedMessages_def)

lemma storeProtectedMessages_fault:
  "\<not> finished t \<Longrightarrow> derive campaignId data = Inl err \<Longrightarrow>
   storeProtectedMessages derive campaignId data t =
     (Inl err, t\<lparr>issued := issued t @ [storeProtectedMessages_call campaignId data]\<rparr>)"
  by (simp add: storeProtectedMessages_def)

lemma storeProtectedMessages_finished:
  "finished t \<Longrightarrow>
   storeProtectedMessages derive campaignId data t =
     (Inl TransactionFinished, t\<lparr>issued := issued t @ [storeProtectedMessages_call campaignId data]\<rparr>)"
  by (simp add: storeProtectedMessages_def)

text \<open>The statements keep the snapshot and never finish the transaction.\<close>

lemma EmailMessage_destroy_keeps:
  "snapshot (snd (EmailMessage_destroy fault campaignId t)) = snapshot t \<and>
   finished (snd (EmailMessage_destroy fault campaignId t)) = finished t"
  by (cases "finished t"; cases fault)
     (simp_all add: EmailMessage_destroy_ok EmailMessage_destroy_fault EmailMessage_destroy_finished)

lemma ProtectedMessage_destroy_keeps:
  "snapshot (snd (ProtectedMessage_destroy fault campaignId t)) = snapshot t \<and>
   finished (snd (ProtectedMessage_destroy fault campaignId t)) = finished t"
  by (cases "finished t"; cases fault)
     (simp_all add: ProtectedMessage_destroy_ok ProtectedMessage_destroy_fault
        ProtectedMessage_destroy_finished)

lemma EmailMessage_bulkCreate_keeps:
  "snapshot (snd (EmailMessage_bulkCreate fault records t)) = snapshot t \<and>
   finished (snd (EmailMessage_bulkCreate fault records t)) = finished t"
  by (cases "finished t"; cases fault)
     (simp_all add: EmailMessage_bulkCreate_ok EmailMessage_bulkCreate_fault
        EmailMessage_bulkCreate_finished)

lemma storeProtectedMessages_keeps:
  "snapshot (snd (storeProtectedMessages derive campaignId data t)) = snapshot t \<and>
   finished (snd (storeProtectedMessages derive campaignId data t)) = finished t"
proof (cases "finished t")
  case True
  then show ?thesis by (simp add: storeProtectedMessages_finished)
next
  case False
  show ?thesis
  proof (cases "derive campaignId data")
    case (Inl err)
    with False show ?thesis by (simp add: storeProtectedMessages_fault)
  next
    case (Inr rows)
    then obtain protectedRows messages where "derive campaignId data = Inr (protectedRows, messages)"
      by (cases rows) simp
    with False show ?thesis by (simp add: storeProtectedMessages_ok)
  qed
qed


text \<open>The pattern \<^verbatim>\<open>try { ... } catch (err) { transaction?.rollback(); throw err }\<close>.\<close>

lemma catch_resolves:
  "(case r of (Inl err, t') \<Rightarrow> (Inl err, rollback t') | (Inr v, t') \<Rightarrow> (Inr (), t')) = (Inr (), t'') \<Longrightarrow>
   \<exists>v. fst r = Inr v \<and> snd r = t''"
  by (cases r; cases "fst r") auto

lemma catch_rejects:
  "fst r = Inl err \<Longrightarrow>
   (case r of (Inl err, t') \<Rightarrow> (Inl err, rollback t') | (Inr v, t') \<Rightarrow> (Inr (), t')) =
     (Inl err, rollback (snd r))"
  by (cases r) auto

lemma uploadCompleteOnPreview_check_fails:
  "checkKeys data (tpl_params template) = Some err \<Longrightarrow>
   uploadCompleteOnPreview checkKeys testHydration fault t template campaignId data = (Inl err, t)"
  by (simp add: uploadCompleteOnPreview_def)

lemma uploadCompleteOnPreview_hydration_fails:
  "checkKeys data (tpl_params template) = None \<Longrightarrow>
   testHydration [first_row data] (tpl_body template) (tpl_subject template) = Some err \<Longrightarrow>
   uploadCompleteOnPreview checkKeys testHydration fault t template campaignId data = (Inl err, t)"
  by (simp add: uploadCompleteOnPreview_def)

lemma uploadCompleteOnPreview_valid:
  "checkKeys data (tpl_params template) = None \<Longrightarrow>
   testHydration [first_row data] (tpl_body template) (tpl_subject template) = None \<Longrightarrow>
   uploadCompleteOnPreview checkKeys testHydration fault t template campaignId data =
     (case EmailMessage_destroy fault campaignId t of
        (Inl err, t') \<Rightarrow> (Inl err, rollback t')
      | (Inr _, t') \<Rightarrow> (Inr (), t'))"
  by (simp add: uploadCompleteOnPreview_def)

lemma uploadProtectedCompleteOnPreview_check_fails:
  "checkKeys data PROTECTED_CSV_HEADERS = Some err \<Longrightarrow>
   uploadProtectedCompleteOnPreview checkKeys testHydration fault t template campaignId data = (Inl err, t)"
  by (simp add: uploadProtectedCompleteOnPreview_def)

lemma uploadProtectedCompleteOnPreview_hydration_fails:
  "checkKeys data PROTECTED_CSV_HEADERS = None \<Longrightarrow>
   testHydration [first_row data] (tpl_body template) (tpl_subject template) = Some err \<Longrightarrow>
   uploadProtectedCompleteOnPreview checkKeys testHydration fault t template campaignId data = (Inl err, t)"
  by (simp add: uploadProtectedCompleteOnPreview_def)

lemma uploadProtectedCompleteOnPreview_valid:
  "checkKeys data PROTECTED_CSV_HEADERS = None \<Longrightarrow>
   testHydration [first_row data] (tpl_body template) (tpl_subject template) = None \<Longrightarrow>
   uploadProtectedCompleteOnPreview checkKeys testHydration fault t template campaignId data =
     (case ProtectedMessage_destroy fault campaignId t of
        (Inl err, t') \<Rightarrow> (Inl err, rollback t')
      | (Inr _, t') \<Rightarrow> (Inr (), t'))"
  by (simp add: uploadProtectedCompleteOnPreview_def)

text \<open>A handler that resolves keeps the snapshot and leaves the transaction open.\<close>

lemma uploadCompleteOnPreview_resolves:
  assumes "uploadCompleteOnPreview checkKeys testHydration fault t template campaignId data = (Inr (), t')"
  shows "snapshot t' = snapshot t \<and> finished t' = finished t"
proof -
  from assms have c: "checkKeys data (tpl_params template) = None"
    by (cases "checkKeys data (tpl_params template)") (simp_all add: uploadCompleteOnPreview_def)
  from assms c have h: "testHydration [first_row data] (tpl_body template) (tpl_subject template) = None"
    by (cases "testHydration [first_row data] (tpl_body template) (tpl_subject template)")
       (simp_all add: uploadCompleteOnPreview_def)
  from assms c h have "(case EmailMessage_destroy fault campaignId t of
        (Inl err, t') \<Rightarrow> (Inl err, rollback t')
      | (Inr _, t') \<Rightarrow> (Inr (), t')) = (Inr (), t')"
    by (simp add: uploadCompleteOnPreview_def)
  then have "\<exists>v. fst (EmailMessage_destroy fault campaignId t) = Inr v \<and>
      snd (EmailMessage_destroy fault campaignId t) = t'"
    by (rule catch_resolves)
  then have "t' = snd (EmailMessage_destroy fault campaignId t)" by blast
  then show ?thesis by (simp add: EmailMessage_destroy_keeps)
qed

lemma uploadProtectedCompleteOnPreview_resolves:
  assumes "uploadProtectedCompleteOnPreview checkKeys testHydration fault t template campaignId data = (Inr (), t')"
  shows "snapshot t' = snapshot t \<and> finished t' = finished t"
proof -
  from assms have c: "checkKeys data PROTECTED_CSV_HEADERS = None"
    by (cases "checkKeys data PROTECTED_CSV_HEADERS")
       (simp_all add: uploadProtectedCompleteOnPreview_def)
  from assms c have h: "testHydration [first_row data] (tpl_body template) (tpl_subject template) = None"
    by (cases "testHydration [first_row data] (tpl_body template) (tpl_subject template)")
       (simp_all add: uploadProtectedCompleteOnPreview_def)
  from assms c h have "(case ProtectedMessage_destroy fault campaignId t of
        (Inl err, t') \<Rightarrow> (Inl err, rollback t')
      | (Inr _, t') \<Rightarrow> (Inr (), t')) = (Inr (), t')"
    by (simp add: uploadProtectedCompleteOnPreview_def)
  then have "\<exists>v. fst (ProtectedMessage_destroy fault campaignId t) = Inr v \<and>
      snd (ProtectedMessage_destroy fault campaignId t) = t'"
    by (rule catch_resolves)
  then have "t' = snd (ProtectedMessage_destroy fault campaignId t)" by blast
  then show ?thesis by (simp add: ProtectedMessage_destroy_keeps)
qed

lemma uploadCompleteOnChunk_resolves:
  assumes "uploadCompleteOnChunk fault t campaignId data = (Inr (), t')"
  shows "snapshot t' = snapshot t \<and> finished t' = finished t"
proof -
  let ?records = "map (\<lambda>entry. \<lparr>em_campaignId = campaignId,
      em_recipient = map_of entry ''recipient'', em_params = entry\<rparr>) data"
  from assms have "\<exists>v. fst (EmailMessage_bulkCreate fault ?records t) = Inr v \<and>
      snd (EmailMessage_bulkCreate fault ?records t) = t'"
    unfolding uploadCompleteOnChunk_def Let_def by (rule catch_resolves)
  then have "t' = snd (EmailMessage_bulkCreate fault ?records t)" by blast
  then show ?thesis by (simp add: EmailMessage_bulkCreate_keeps)
qed

lemma uploadProtectedCompleteOnChunk_resolves:
  assumes "uploadProtectedCompleteOnChunk derive fault t campaignId data = (Inr (), t')"
  shows "snapshot t' = snapshot t \<and> finished t' = finished t"
proof (cases "storeProtectedMessages derive campaignId data t")
  case (Pair x t1)
  note store = Pair
  have k1: "snapshot t1 = snapshot t \<and> finished t1 = finished t"
    using storeProtectedMessages_keeps [of derive campaignId data t] store by simp
  show ?thesis
  proof (cases x)
    case (Inl err)
    with assms store show ?thesis by (simp add: uploadProtectedCompleteOnChunk_def)
  next
    case (Inr messages)
    with assms store have "\<exists>v. fst (EmailMessage_bulkCreate fault messages t1) = Inr v \<and>
        snd (EmailMessage_bulkCreate fault messages t1) = t'"
      by (intro catch_resolves) (simp add: uploadProtectedCompleteOnChunk_def)
    then have "t' = snd (EmailMessage_bulkCreate fault messages t1)" by blast
    with k1 show ?thesis by (simp add: EmailMessage_bulkCreate_keeps)
  qed
qed

lemma upload_state_open: "upload_state db0 t \<Longrightarrow> snapshot t = db0 \<and> \<not> finished t"
proof (induction rule: upload_state.induct)
  case begun
  show ?case by (simp add: begin_transaction_def)
next
  case (preview t checkKeys testHydration fault template campaignId data t')
  from uploadCompleteOnPreview_resolves [OF preview.hyps(2)] preview.IH show ?case by simp
next
  case (chunk t fault campaignId data t')
  from uploadCompleteOnChunk_resolves [OF chunk.hyps(2)] chunk.IH show ?case by simp
next
  case (protected_preview t checkKeys testHydration fault template campaignId data t')
  from uploadProtectedCompleteOnPreview_resolves [OF protected_preview.hyps(2)] protected_preview.IH
  show ?case by simp
next
  case (protected_chunk t derive fault campaignId data t')
  from uploadProtectedCompleteOnChunk_resolves [OF protected_chunk.hyps(2)] protected_chunk.IH
  show ?case by simp
qed


lemma rejects_rolled_backI:
  assumes "snapshot t1 = db0" and "\<not> finished t1"
  shows "rejects_rolled_back db0 err (Inl err, rollback t1)"
  using assms by (simp add: rejects_rolled_back_def rollback_def)

text \<open>
  Claim C2. During an upload that began on the database \<open>db0\<close>, after any number of
  handler calls that resolved (the preview delete and the chunks inserted so far), a
  persistence operation that fails with \<open>err\<close> in any of the four handlers makes the
  handler reject with the same \<open>err\<close> after it has rolled the transaction back: the
  transaction is finished and the database is \<open>db0\<close> again, the state before the upload.
  The operations are the delete of a preview handler (reached when both validations
  pass), the bulk insert of a chunk handler, and for a protected chunk the storing of the
  protected messages as well.
\<close>

theorem persistence_failure_rolls_back:
  assumes "upload_state db0 t"
  shows
    "(checkKeys data (tpl_params template) = None \<and>
      testHydration [first_row data] (tpl_body template) (tpl_subject template) = None \<longrightarrow>
        rejects_rolled_back db0 err
          (uploadCompleteOnPreview checkKeys testHydration (Some err) t template campaignId data)) \<and>
     rejects_rolled_back db0 err (uploadCompleteOnChunk (Some err) t campaignId data) \<and>
     (checkKeys data PROTECTED_CSV_HEADERS = None \<and>
      testHydration [first_row data] (tpl_body template) (tpl_subject template) = None \<longrightarrow>
        rejects_rolled_back db0 err
          (uploadProtectedCompleteOnPreview checkKeys testHydration (Some err) t template campaignId data)) \<and>
     (derive campaignId data = Inl err \<longrightarrow>
        rejects_rolled_back db0 err
          (uploadProtectedCompleteOnChunk derive fault t campaignId data)) \<and>
     ((\<exists>rows. derive campaignId data = Inr rows) \<longrightarrow>
        rejects_rolled_back db0 err
          (uploadProtectedCompleteOnChunk derive (Some err) t campaignId data))"
proof -
  from assms have s: "snapshot t = db0" and f: "\<not> finished t"
    by (simp_all add: upload_state_open)
  have 1: "rejects_rolled_back db0 err
          (uploadCompleteOnPreview checkKeys testHydration (Some err) t template campaignId data)"
    if "checkKeys data (tpl_params template) = None \<and>
      testHydration [first_row data] (tpl_body template) (tpl_subject template) = None"
  proof -
    from that f have "uploadCompleteOnPreview checkKeys testHydration (Some err) t template campaignId data =
      (Inl err, rollback (t\<lparr>issued := issued t @ [EmailMessage_destroy_call campaignId]\<rparr>))"
      by (simp add: uploadCompleteOnPreview_def EmailMessage_destroy_fault)
    moreover have "rejects_rolled_back db0 err
      (Inl err, rollback (t\<lparr>issued := issued t @ [EmailMessage_destroy_call campaignId]\<rparr>))"
      by (rule rejects_rolled_backI) (simp_all add: s f)
    ultimately show ?thesis by simp
  qed
  have 2: "rejects_rolled_back db0 err (uploadCompleteOnChunk (Some err) t campaignId data)"
  proof -
    from f have "uploadCompleteOnChunk (Some err) t campaignId data =
      (Inl err, rollback (t\<lparr>issued := issued t @ [EmailMessage_bulkCreate_call
         (map (\<lambda>entry. \<lparr>em_campaignId = campaignId, em_recipient = map_of entry ''recipient'',
                          em_params = entry\<rparr>) data)]\<rparr>))"
      by (simp add: uploadCompleteOnChunk_def EmailMessage_bulkCreate_fault)
    moreover have "rejects_rolled_back db0 err
      (Inl err, rollback (t\<lparr>issued := issued t @ [EmailMessage_bulkCreate_call
         (map (\<lambda>entry. \<lparr>em_campaignId = campaignId, em_recipient = map_of entry ''recipient'',
                          em_params = entry\<rparr>) data)]\<rparr>))"
      by (rule rejects_rolled_backI) (simp_all add: s f)
    ultimately show ?thesis by simp
  qed
  have 3: "rejects_rolled_back db0 err
          (uploadProtectedCompleteOnPreview checkKeys testHydration (Some err) t template campaignId data)"
    if "checkKeys data PROTECTED_CSV_HEADERS = None \<and>
      testHydration [first_row data] (tpl_body template) (tpl_subject template) = None"
  proof -
    from that f have "uploadProtectedCompleteOnPreview checkKeys testHydration (Some err) t template campaignId data =
      (Inl err, rollback (t\<lparr>issued := issued t @ [ProtectedMessage_destroy_call campaignId]\<rparr>))"
      by (simp add: uploadProtectedCompleteOnPreview_def ProtectedMessage_destroy_fault)
    moreover have "rejects_rolled_back db0 err
      (Inl err, rollback (t\<lparr>issued := issued t @ [ProtectedMessage_destroy_call campaignId]\<rparr>))"
      by (rule rejects_rolled_backI) (simp_all add: s f)
    ultimately show ?thesis by simp
  qed
  have 4: "rejects_rolled_back db0 err (uploadProtectedCompleteOnChunk derive fault t campaignId data)"
    if "derive campaignId data = Inl err"
  proof -
    from that f have "uploadProtectedCompleteOnChunk derive fault t campaignId data =
      (Inl err, rollback (t\<lparr>issued := issued t @ [storeProtectedMessages_call campaignId data]\<rparr>))"
      by (simp add: uploadProtectedCompleteOnChunk_def storeProtectedMessages_fault)
    moreover have "rejects_rolled_back db0 err
      (Inl err, rollback (t\<lparr>issued := issued t @ [storeProtectedMessages_call campaignId data]\<rparr>))"
      by (rule rejects_rolled_backI) (simp_all add: s f)
    ultimately show ?thesis by simp
  qed
  have 5: "rejects_rolled_back db0 err (uploadProtectedCompleteOnChunk derive (Some err) t campaignId data)"
    if "\<exists>rows. derive campaignId data = Inr rows"
  proof -
    from that obtain protectedRows messages where
      d: "derive campaignId data = Inr (protectedRows, messages)" by auto
    define t1 where "t1 = t\<lparr>issued := issued t @ [storeProtectedMessages_call campaignId data],
               working := (working t)\<lparr>protected_messages :=
                 bulkCreate protectedRows (protected_messages (working t))\<rparr>\<rparr>"
    have st: "storeProtectedMessages derive campaignId data t = (Inr messages, t1)"
      unfolding t1_def using f d by (rule storeProtectedMessages_ok)
    have f1: "\<not> finished t1" and s1: "snapshot t1 = db0"
      by (simp_all add: t1_def f s)
    from f1 have "EmailMessage_bulkCreate (Some err) messages t1 =
       (Inl err, t1\<lparr>issued := issued t1 @ [EmailMessage_bulkCreate_call messages]\<rparr>)"
      by (rule EmailMessage_bulkCreate_fault)
    with st have "uploadProtectedCompleteOnChunk derive (Some err) t campaignId data =
      (Inl err, rollback (t1\<lparr>issued := issued t1 @ [EmailMessage_bulkCreate_call messages]\<rparr>))"
      by (simp add: uploadProtectedCompleteOnChunk_def)
    moreover have "rejects_rolled_back db0 err
      (Inl err, rollback (t1\<lparr>issued := issued t1 @ [EmailMessage_bulkCreate_call messages]\<rparr>))"
      by (rule rejects_rolled_backI) (simp_all add: s1 f1)
    ultimately show ?thesis by simp
  qed
  from 1 2 3 4 5 show ?thesis by blast
qed

text \<open>The example upload: the preview deletes the two stored rows, the chunk inserts its two.\<close>

lemma after_preview_eq:
  "after_preview =
     \<lparr>snapshot = example_db, working = example_db\<lparr>email_messages := []\<rparr>, finished = False,
      issued = [EmailMessage_destroy_call 1]\<rparr>"
  by (simp add: uploadCompleteOnPreview_def checkTemplateKeysMatch_def first_row_def
      EmailMessage_destroy_def begin_transaction_def destroy_def)

lemma after_chunk_eq:
  "after_chunk =
     \<lparr>snapshot = example_db,
      working = example_db\<lparr>email_messages :=
        [\<lparr>em_campaignId = 1, em_recipient = Some ''b@x.com'', em_params = bo_row\<rparr>,
         \<lparr>em_campaignId = 1, em_recipient = Some ''a@x.com'', em_params = alex_row\<rparr>]\<rparr>,
      finished = False,
      issued = [EmailMessage_destroy_call 1,
                EmailMessage_bulkCreate_call
                  [\<lparr>em_campaignId = 1, em_recipient = Some ''b@x.com'', em_params = bo_row\<rparr>,
                   \<lparr>em_campaignId = 1, em_recipient = Some ''a@x.com'', em_params = alex_row\<rparr>]]\<rparr>"
  unfolding after_preview_eq
  by (simp add: uploadCompleteOnChunk_def EmailMessage_bulkCreate_def bulkCreate_def Let_def)

lemma after_preview_state: "upload_state example_db after_preview"
proof (rule upload_state.preview)
  show "upload_state example_db (begin_transaction example_db)" by (rule upload_state.begun)
  show "uploadCompleteOnPreview checkTemplateKeysMatch hydration_passes None
            (begin_transaction example_db) example_template 1 [bo_row, alex_row] = (Inr (), after_preview)"
    by (simp add: prod_eq_iff uploadCompleteOnPreview_def checkTemplateKeysMatch_def first_row_def
      EmailMessage_destroy_def begin_transaction_def)
qed

lemma after_chunk_state: "upload_state example_db after_chunk"
proof (rule upload_state.chunk)
  show "upload_state example_db after_preview" by (rule after_preview_state)
  show "uploadCompleteOnChunk None after_preview 1 [bo_row, alex_row] = (Inr (), after_chunk)"
    unfolding after_preview_eq
    by (simp add: prod_eq_iff uploadCompleteOnChunk_def EmailMessage_bulkCreate_def Let_def)
qed

text \<open>
  The theorem at the example upload: after the preview and a chunk, the next chunk's
  insert fails; the handler rejects with the failure and the database is the one before
  the upload, with its two original rows.
\<close>

theorem persistence_failure_rolls_back_witness:
  "email_messages (working after_chunk) =
     [\<lparr>em_campaignId = 1, em_recipient = Some ''b@x.com'', em_params = bo_row\<rparr>,
      \<lparr>em_campaignId = 1, em_recipient = Some ''a@x.com'', em_params = alex_row\<rparr>] \<and>
   fst (uploadCompleteOnChunk (Some (PersistenceFailure ''connection lost'')) after_chunk 1 [alex_row]) =
     Inl (PersistenceFailure ''connection lost'') \<and>
   finished (snd (uploadCompleteOnChunk (Some (PersistenceFailure ''connection lost'')) after_chunk 1 [alex_row])) \<and>
   working (snd (uploadCompleteOnChunk (Some (PersistenceFailure ''connection lost'')) after_chunk 1 [alex_row])) =
     example_db"
proof -
  have a: "email_messages (working after_chunk) =
     [\<lparr>em_campaignId = 1, em_recipient = Some ''b@x.com'', em_params = bo_row\<rparr>,
      \<lparr>em_campaignId = 1, em_recipient = Some ''a@x.com'', em_params = alex_row\<rparr>]"
    unfolding after_chunk_eq by simp
  from persistence_failure_rolls_back [OF after_chunk_state,
      where err = "PersistenceFailure ''connection lost''" and campaignId = 1 and data = "[alex_row]"]
  have "rejects_rolled_back example_db (PersistenceFailure ''connection lost'')
     (uploadCompleteOnChunk (Some (PersistenceFailure ''connection lost'')) after_chunk 1 [alex_row])"
    by blast
  with a show ?thesis unfolding rejects_rolled_back_def by blast
qed

section \<open>Upload: the rows of a chunk\<close>

text \<open>
  Claim C1. For every chunk handed to \<^verbatim>\<open>uploadCompleteOnChunk\<close> in an open transaction,
  when the database accepts the insert the handler resolves, and the message table of
  the transaction is the former table followed by exactly one record per row of the
  chunk, in the order of the rows: the record at position \<open>i\<close> has the campaign id, the
  \<^verbatim>\<open>recipient\<close> column of row \<open>i\<close> as recipient and the whole row \<open>i\<close> as parameters.
  Nothing is dropped or merged, and the one insert issued carries exactly these records.
\<close>

theorem uploadCompleteOnChunk_inserts_rows:
  assumes "\<not> finished t"
  shows "\<exists>t'. uploadCompleteOnChunk None t campaignId data = (Inr (), t') \<and>
     length (email_messages (working t')) = length (email_messages (working t)) + length data \<and>
     take (length (email_messages (working t))) (email_messages (working t')) =
       email_messages (working t) \<and>
     (\<forall>i < length data.
        email_messages (working t') ! (length (email_messages (working t)) + i) =
          \<lparr>em_campaignId = campaignId,
           em_recipient = map_of (data ! i) ''recipient'',
           em_params = data ! i\<rparr>) \<and>
     issued t' = issued t @
       [EmailMessage_bulkCreate_call
          (drop (length (email_messages (working t))) (email_messages (working t')))] \<and>
     campaigns (working t') = campaigns (working t) \<and>
     protected_messages (working t') = protected_messages (working t)"
proof -
  let ?records = "map (\<lambda>entry. \<lparr>em_campaignId = campaignId,
      em_recipient = map_of entry ''recipient'', em_params = entry\<rparr>) data"
  let ?t' = "t\<lparr>issued := issued t @ [EmailMessage_bulkCreate_call ?records],
               working := (working t)\<lparr>email_messages :=
                 bulkCreate ?records (email_messages (working t))\<rparr>\<rparr>"
  have r: "uploadCompleteOnChunk None t campaignId data = (Inr (), ?t')"
    using assms by (simp add: uploadCompleteOnChunk_def Let_def EmailMessage_bulkCreate_ok)
  have rows: "email_messages (working ?t') = email_messages (working t) @ ?records"
    by (simp add: bulkCreate_def)
  have 1: "length (email_messages (working ?t')) = length (email_messages (working t)) + length data"
    by (simp add: bulkCreate_def)
  have 2: "take (length (email_messages (working t))) (email_messages (working ?t')) =
       email_messages (working t)"
    by (simp add: bulkCreate_def)
  have 3: "\<forall>i < length data.
        email_messages (working ?t') ! (length (email_messages (working t)) + i) =
          \<lparr>em_campaignId = campaignId,
           em_recipient = map_of (data ! i) ''recipient'',
           em_params = data ! i\<rparr>"
    by (simp add: bulkCreate_def nth_append)
  have 4: "issued ?t' = issued t @
       [EmailMessage_bulkCreate_call
          (drop (length (email_messages (working t))) (email_messages (working ?t')))]"
    by (simp add: bulkCreate_def)
  have 5: "campaigns (working ?t') = campaigns (working t)"
    and 6: "protected_messages (working ?t') = protected_messages (working t)"
    by simp_all
  from r 1 2 3 4 5 6 show ?thesis by blast
qed

text \<open>
  The theorem at a chunk in which \<^verbatim>\<open>b@x.com\<close> appears twice: the two rows yield two
  records.
\<close>

theorem uploadCompleteOnChunk_inserts_rows_witness:
  "\<not> finished after_preview \<and>
   uploadCompleteOnChunk None after_preview 1 [bo_row, alex_row, bo_row] =
     (Inr (), snd (uploadCompleteOnChunk None after_preview 1 [bo_row, alex_row, bo_row])) \<and>
   email_messages (working (snd (uploadCompleteOnChunk None after_preview 1 [bo_row, alex_row, bo_row]))) =
     [\<lparr>em_campaignId = 1, em_recipient = Some ''b@x.com'', em_params = bo_row\<rparr>,
      \<lparr>em_campaignId = 1, em_recipient = Some ''a@x.com'', em_params = alex_row\<rparr>,
      \<lparr>em_campaignId = 1, em_recipient = Some ''b@x.com'', em_params = bo_row\<rparr>]"
proof -
  have f: "\<not> finished after_preview"
    unfolding after_preview_eq by simp
  from uploadCompleteOnChunk_inserts_rows [OF f, of 1 "[bo_row, alex_row, bo_row]"]
  obtain t' where r: "uploadCompleteOnChunk None after_preview 1 [bo_row, alex_row, bo_row] = (Inr (), t')"
    by blast
  then have a: "uploadCompleteOnChunk None after_preview 1 [bo_row, alex_row, bo_row] =
     (Inr (), snd (uploadCompleteOnChunk None after_preview 1 [bo_row, alex_row, bo_row]))"
    by simp
  have b: "email_messages (working (snd (uploadCompleteOnChunk None after_preview 1 [bo_row, alex_row, bo_row]))) =
     [\<lparr>em_campaignId = 1, em_recipient = Some ''b@x.com'', em_params = bo_row\<rparr>,
      \<lparr>em_campaignId = 1, em_recipient = Some ''a@x.com'', em_params = alex_row\<rparr>,
      \<lparr>em_campaignId = 1, em_recipient = Some ''b@x.com'', em_params = bo_row\<rparr>]"
    unfolding after_preview_eq
    by (simp add: uploadCompleteOnChunk_def EmailMessage_bulkCreate_def bulkCreate_def Let_def)
  from f a b show ?thesis by blast
qed

section \<open>Upload: validation before the delete\<close>

text \<open>
  Claim C3. In both preview handlers the header validation and the trial hydration come
  before the delete: when the header validation fails, or when it passes and the trial
  hydration fails, the handler rejects with that error and the transaction is exactly
  as it was, so no delete has been issued and no row has changed; and whenever the
  handler has issued any call on the transaction, both validations had passed.
\<close>

theorem validation_precedes_delete:
  "(\<forall>err. checkKeys data (tpl_params template) = Some err \<longrightarrow>
      uploadCompleteOnPreview checkKeys testHydration fault t template campaignId data = (Inl err, t)) \<and>
   (\<forall>err. checkKeys data (tpl_params template) = None \<and>
          testHydration [first_row data] (tpl_body template) (tpl_subject template) = Some err \<longrightarrow>
      uploadCompleteOnPreview checkKeys testHydration fault t template campaignId data = (Inl err, t)) \<and>
   (issued (snd (uploadCompleteOnPreview checkKeys testHydration fault t template campaignId data)) \<noteq> issued t \<longrightarrow>
      checkKeys data (tpl_params template) = None \<and>
      testHydration [first_row data] (tpl_body template) (tpl_subject template) = None) \<and>
   (\<forall>err. checkKeys data PROTECTED_CSV_HEADERS = Some err \<longrightarrow>
      uploadProtectedCompleteOnPreview checkKeys testHydration fault t template campaignId data = (Inl err, t)) \<and>
   (\<forall>err. checkKeys data PROTECTED_CSV_HEADERS = None \<and>
          testHydration [first_row data] (tpl_body template) (tpl_subject template) = Some err \<longrightarrow>
      uploadProtectedCompleteOnPreview checkKeys testHydration fault t template campaignId data = (Inl err, t)) \<and>
   (issued (snd (uploadProtectedCompleteOnPreview checkKeys testHydration fault t template campaignId data)) \<noteq> issued t \<longrightarrow>
      checkKeys data PROTECTED_CSV_HEADERS = None \<and>
      testHydration [first_row data] (tpl_body template) (tpl_subject template) = None)"
proof -
  have 1: "uploadCompleteOnPreview checkKeys testHydration fault t template campaignId data = (Inl err, t)"
    if "checkKeys data (tpl_params template) = Some err" for err
    using that by (rule uploadCompleteOnPreview_check_fails)
  have 2: "uploadCompleteOnPreview checkKeys testHydration fault t template campaignId data = (Inl err, t)"
    if "checkKeys data (tpl_params template) = None \<and>
        testHydration [first_row data] (tpl_body template) (tpl_subject template) = Some err" for err
    using that by (simp add: uploadCompleteOnPreview_hydration_fails)
  have 3: "checkKeys data (tpl_params template) = None \<and>
      testHydration [first_row data] (tpl_body template) (tpl_subject template) = None"
    if i: "issued (snd (uploadCompleteOnPreview checkKeys testHydration fault t template campaignId data)) \<noteq> issued t"
  proof (rule conjI)
    show c: "checkKeys data (tpl_params template) = None"
    proof (cases "checkKeys data (tpl_params template)")
      case (Some err)
      with i 1 show ?thesis by simp
    qed
    show "testHydration [first_row data] (tpl_body template) (tpl_subject template) = None"
    proof (cases "testHydration [first_row data] (tpl_body template) (tpl_subject template)")
      case (Some err)
      with i c 2 show ?thesis by simp
    qed
  qed
  have 4: "uploadProtectedCompleteOnPreview checkKeys testHydration fault t template campaignId data = (Inl err, t)"
    if "checkKeys data PROTECTED_CSV_HEADERS = Some err" for err
    using that by (rule uploadProtectedCompleteOnPreview_check_fails)
  have 5: "uploadProtectedCompleteOnPreview checkKeys testHydration fault t template campaignId data = (Inl err, t)"
    if "checkKeys data PROTECTED_CSV_HEADERS = None \<and>
        testHydration [first_row data] (tpl_body template) (tpl_subject template) = Some err" for err
    using that by (simp add: uploadProtectedCompleteOnPreview_hydration_fails)
  have 6: "checkKeys data PROTECTED_CSV_HEADERS = None \<and>
      testHydration [first_row data] (tpl_body template) (tpl_subject template) = None"
    if i: "issued (snd (uploadProtectedCompleteOnPreview checkKeys testHydration fault t template campaignId data)) \<noteq> issued t"
  proof (rule conjI)
    show c: "checkKeys data PROTECTED_CSV_HEADERS = None"
    proof (cases "checkKeys data PROTECTED_CSV_HEADERS")
      case (Some err)
      with i 4 show ?thesis by simp
    qed
    show "testHydration [first_row data] (tpl_body template) (tpl_subject template) = None"
    proof (cases "testHydration [first_row data] (tpl_body template) (tpl_subject template)")
      case (Some err)
      with i c 5 show ?thesis by simp
    qed
  qed
  from 1 2 3 4 5 6 show ?thesis by blast
qed

text \<open>
  The theorem at the example data: a CSV without the column \<^verbatim>\<open>name\<close>, a trial hydration
  that fails, and a plain CSV given to the protected handler are all rejected with the
  transaction untouched.
\<close>

theorem validation_precedes_delete_witness:
  "uploadCompleteOnPreview checkTemplateKeysMatch hydration_passes None
      (begin_transaction example_db) example_template 1 [[(''recipient'', ''a@x.com'')]] =
     (Inl (HeaderMismatch [''name'']), begin_transaction example_db) \<and>
   uploadCompleteOnPreview checkTemplateKeysMatch (\<lambda>records body subject. Some (TemplateHydrationFailure ''name''))
      None (begin_transaction example_db) example_template 1 [alex_row] =
     (Inl (TemplateHydrationFailure ''name''), begin_transaction example_db) \<and>
   uploadProtectedCompleteOnPreview checkTemplateKeysMatch hydration_passes None
      (begin_transaction example_db) example_template 1 [alex_row] =
     (Inl (HeaderMismatch [''payload'', ''passwordhash'', ''id'']), begin_transaction example_db) \<and>
   working (begin_transaction example_db) = example_db"
proof -
  have c1: "checkTemplateKeysMatch [[(''recipient'', ''a@x.com'')]] (tpl_params example_template) =
      Some (HeaderMismatch [''name''])"
    by (simp add: checkTemplateKeysMatch_def)
  have c2: "checkTemplateKeysMatch [alex_row] (tpl_params example_template) = None"
    by (simp add: checkTemplateKeysMatch_def)
  have c3: "checkTemplateKeysMatch [alex_row] PROTECTED_CSV_HEADERS =
      Some (HeaderMismatch [''payload'', ''passwordhash'', ''id''])"
    by (simp add: checkTemplateKeysMatch_def PROTECTED_CSV_HEADERS_def)
  have a: "uploadCompleteOnPreview checkTemplateKeysMatch hydration_passes None
      (begin_transaction example_db) example_template 1 [[(''recipient'', ''a@x.com'')]] =
     (Inl (HeaderMismatch [''name'']), begin_transaction example_db)"
    using validation_precedes_delete
      [where checkKeys = checkTemplateKeysMatch and testHydration = hydration_passes
         and fault = None and t = "begin_transaction example_db" and template = example_template
         and campaignId = 1 and data = "[[(''recipient'', ''a@x.com'')]]"] c1
    by blast
  have b: "uploadCompleteOnPreview checkTemplateKeysMatch
      (\<lambda>records body subject. Some (TemplateHydrationFailure ''name''))
      None (begin_transaction example_db) example_template 1 [alex_row] =
     (Inl (TemplateHydrationFailure ''name''), begin_transaction example_db)"
    using validation_precedes_delete
      [where checkKeys = checkTemplateKeysMatch
         and testHydration = "\<lambda>records body subject. Some (TemplateHydrationFailure ''name'')"
         and fault = None and t = "begin_transaction example_db" and template = example_template
         and campaignId = 1 and data = "[alex_row]"] c2
    by simp
  have c: "uploadProtectedCompleteOnPreview checkTemplateKeysMatch hydration_passes None
      (begin_transaction example_db) example_template 1 [alex_row] =
     (Inl (HeaderMismatch [''payload'', ''passwordhash'', ''id'']), begin_transaction example_db)"
    using validation_precedes_delete
      [where checkKeys = checkTemplateKeysMatch and testHydration = hydration_passes
         and fault = None and t = "begin_transaction example_db" and template = example_template
         and campaignId = 1 and data = "[alex_row]"] c3
    by blast
  have d: "working (begin_transaction example_db) = example_db"
    by (simp add: begin_transaction_def)
  from a b c d show ?thesis by blast
qed

section \<open>Upload: the header of a protected campaign's CSV\<close>

lemma filter_missing_empty: "filter (\<lambda>p. p \<notin> S) ps = [] \<longleftrightarrow> set ps \<subseteq> S"
  by (induction ps) auto

lemma checkTemplateKeysMatch_None_iff:
  "checkTemplateKeysMatch data templateParams = None \<longleftrightarrow>
   set templateParams \<subseteq> set (case data of [] \<Rightarrow> [] | row # _ \<Rightarrow> map fst row)"
  by (simp add: checkTemplateKeysMatch_def Let_def filter_missing_empty)

text \<open>
  Claim C8 says that the protected preview handler accepts a CSV if and only if its
  header is exactly the four columns. It fails in one direction: a CSV with the four
  columns and a fifth one is accepted.
\<close>

theorem protected_preview_accepts_extra_column:
  "fst (uploadProtectedCompleteOnPreview checkTemplateKeysMatch hydration_passes None
      (begin_transaction example_db) example_template 1 [protected_row @ [(''note'', ''x'')]]) = Inr () \<and>
   set (map fst (protected_row @ [(''note'', ''x'')])) \<noteq> set PROTECTED_CSV_HEADERS"
proof (rule conjI)
  have "checkTemplateKeysMatch [protected_row @ [(''note'', ''x'')]] PROTECTED_CSV_HEADERS = None"
    by (simp add: checkTemplateKeysMatch_def PROTECTED_CSV_HEADERS_def)
  then show "fst (uploadProtectedCompleteOnPreview checkTemplateKeysMatch hydration_passes None
      (begin_transaction example_db) example_template 1 [protected_row @ [(''note'', ''x'')]]) = Inr ()"
    by (simp add: uploadProtectedCompleteOnPreview_def ProtectedMessage_destroy_def
        begin_transaction_def)
  have "''note'' \<in> set (map fst (protected_row @ [(''note'', ''x'')]))" by simp
  moreover have "''note'' \<notin> set PROTECTED_CSV_HEADERS"
    by (simp add: PROTECTED_CSV_HEADERS_def)
  ultimately show "set (map fst (protected_row @ [(''note'', ''x'')])) \<noteq> set PROTECTED_CSV_HEADERS"
    by metis
qed

lemma PROTECTED_CSV_HEADERS_set:
  "set PROTECTED_CSV_HEADERS = {''recipient'', ''payload'', ''passwordhash'', ''id''}"
  by (simp add: PROTECTED_CSV_HEADERS_def)

lemma uploadProtectedCompleteOnPreview_resolves_iff:
  "fst (uploadProtectedCompleteOnPreview checkKeys testHydration fault t template campaignId data) =
     Inr () \<longleftrightarrow>
   checkKeys data PROTECTED_CSV_HEADERS = None \<and>
   testHydration [first_row data] (tpl_body template) (tpl_subject template) = None \<and>
   \<not> finished t \<and> fault = None"
proof (cases "checkKeys data PROTECTED_CSV_HEADERS")
  case (Some err)
  then show ?thesis by (simp add: uploadProtectedCompleteOnPreview_check_fails)
next
  case None
  note c = None
  show ?thesis
  proof (cases "testHydration [first_row data] (tpl_body template) (tpl_subject template)")
    case (Some err)
    with c show ?thesis by (simp add: uploadProtectedCompleteOnPreview_hydration_fails)
  next
    case None
    with c show ?thesis
      by (cases "finished t"; cases fault)
         (simp_all add: uploadProtectedCompleteOnPreview_def ProtectedMessage_destroy_ok
            ProtectedMessage_destroy_fault ProtectedMessage_destroy_finished)
  qed
qed

text \<open>
  Claim C8 as amended. The header validation of the protected preview handler passes if
  and only if the header contains all of \<^verbatim>\<open>recipient\<close>, \<^verbatim>\<open>payload\<close>,
  \<^verbatim>\<open>passwordhash\<close> and \<^verbatim>\<open>id\<close>; further columns are no ground for rejection. The
  handler accepts the CSV if and only if, besides, the trial hydration passes and the
  delete succeeds in an open transaction.
\<close>

theorem protected_preview_accepts_iff:
  "(checkTemplateKeysMatch data PROTECTED_CSV_HEADERS = None \<longleftrightarrow>
      {''recipient'', ''payload'', ''passwordhash'', ''id''} \<subseteq>
        set (case data of [] \<Rightarrow> [] | row # _ \<Rightarrow> map fst row)) \<and>
   (fst (uploadProtectedCompleteOnPreview checkTemplateKeysMatch testHydration fault t template
           campaignId data) = Inr () \<longleftrightarrow>
      {''recipient'', ''payload'', ''passwordhash'', ''id''} \<subseteq>
        set (case data of [] \<Rightarrow> [] | row # _ \<Rightarrow> map fst row) \<and>
      testHydration [first_row data] (tpl_body template) (tpl_subject template) = None \<and>
      \<not> finished t \<and> fault = None)"
  by (simp only: uploadProtectedCompleteOnPreview_resolves_iff checkTemplateKeysMatch_None_iff
      PROTECTED_CSV_HEADERS_set simp_thms)

text \<open>
  The theorem at the example data: the row with the four columns is accepted, the plain
  row without \<^verbatim>\<open>payload\<close>, \<^verbatim>\<open>passwordhash\<close> and \<^verbatim>\<open>id\<close> is not.
\<close>

theorem protected_preview_accepts_iff_witness:
  "fst (uploadProtectedCompleteOnPreview checkTemplateKeysMatch hydration_passes None
      (begin_transaction example_db) example_template 1 [protected_row]) = Inr () \<and>
   fst (uploadProtectedCompleteOnPreview checkTemplateKeysMatch hydration_passes None
      (begin_transaction example_db) example_template 1 [alex_row]) \<noteq> Inr ()"
proof -
  have f: "\<not> finished (begin_transaction example_db)"
    by (simp add: begin_transaction_def)
  have ca: "{''recipient'', ''payload'', ''passwordhash'', ''id''} \<subseteq>
        set (case [protected_row] of [] \<Rightarrow> [] | row # _ \<Rightarrow> map fst row)"
    by simp
  have cb: "\<not> {''recipient'', ''payload'', ''passwordhash'', ''id''} \<subseteq>
        set (case [alex_row] of [] \<Rightarrow> [] | row # _ \<Rightarrow> map fst row)"
    by simp
  note a = protected_preview_accepts_iff
      [of "[protected_row]" hydration_passes None "begin_transaction example_db" example_template 1,
       THEN conjunct2, THEN iffD2, OF conjI [OF ca conjI [OF refl conjI [OF f refl]]]]
  have b: "fst (uploadProtectedCompleteOnPreview checkTemplateKeysMatch hydration_passes None
      (begin_transaction example_db) example_template 1 [alex_row]) \<noteq> Inr ()"
  proof
    assume "fst (uploadProtectedCompleteOnPreview checkTemplateKeysMatch hydration_passes None
      (begin_transaction example_db) example_template 1 [alex_row]) = Inr ()"
    from protected_preview_accepts_iff
      [of "[alex_row]" hydration_passes None "begin_transaction example_db" example_template 1,
       THEN conjunct2, THEN iffD1, OF this, THEN conjunct1] cb
    show False by (rule notE [rotated])
  qed
  from a b show ?thesis by (rule conjI)
qed

end
